theory Spec2Isabelle
  imports
    Complex_Main
    "HOL-Library.Char_ord"
    "HOL-Library.List_Lexorder"
    "HOL-Library.Product_Lexorder"
begin

section \<open>DORA metrics aggregation (scripts/aggregate\_dora\_metrics.py)\<close>

text \<open>
  A shallow embedding of the aggregation script. Python exceptions are values of
  \<open>error\<close>; a function that may raise returns \<open>error + 'a\<close> with \<open>Inl\<close> for the
  exception, and the first exception raised is the one returned.

  Conventions of the embedding:
  \<^item> A metric record is the JSON object of one file. Its five keys are fields of option
    type, \<open>None\<close> meaning that the key is absent. Top-level values are strings, payloads
    are objects whose values are strings (the MetricEvent shape).
  \<^item> Python's \<open>float\<close> is idealised as exact rational arithmetic, extended with the two
    special values that integer division by zero yields in pandas (\<open>NaN\<close>, \<open>PosInf\<close>).
    Rounding to two decimals is numpy's: to the nearest, ties to even.
  \<^item> \<open>dateutil.parser.parse\<close> and \<open>pandas.to_datetime\<close> are library functions. They are
    modelled on the ISO-8601 extended format
    \<open>YYYY-MM-DD[(T| )HH:MM:SS[.ffffff][Z|(+|-)HH:MM]]\<close> and raise \<open>ValueError\<close> on
    everything else; pandas parses a column element by element here.
\<close>

subsection \<open>Exceptions and records\<close>

datatype error = KeyError string | ValueError string | TypeError string

type_synonym payload = "(string \<times> string) list"

record metric =
  timestamp :: "string option"
  service :: "string option"
  deployment_frequency :: "payload option"
  lead_time_for_changes :: "payload option"
  change_failure_rate :: "payload option"

text \<open>\<open>d[k]\<close> on a dict raises \<open>KeyError\<close> when the key is absent; \<open>d.get(k, default)\<close> does not.\<close>

definition field :: "string \<Rightarrow> 'a option \<Rightarrow> error + 'a" where
  "field k v = (case v of None \<Rightarrow> Inl (KeyError k) | Some x \<Rightarrow> Inr x)"

definition getitem :: "payload \<Rightarrow> string \<Rightarrow> error + string" where
  "getitem d k = field k (map_of d k)"

definition get :: "payload \<Rightarrow> string \<Rightarrow> string \<Rightarrow> string" where
  "get d k dflt = (case map_of d k of None \<Rightarrow> dflt | Some v \<Rightarrow> v)"

text \<open>Sequencing of statements that may raise.\<close>

definition bind :: "error + 'a \<Rightarrow> ('a \<Rightarrow> error + 'b) \<Rightarrow> error + 'b" where
  "bind r f = (case r of Inl e \<Rightarrow> Inl e | Inr x \<Rightarrow> f x)"

fun mapM :: "('a \<Rightarrow> error + 'b) \<Rightarrow> 'a list \<Rightarrow> error + 'b list" where
  "mapM f [] = Inr []"
| "mapM f (x # xs) = bind (f x) (\<lambda>y. bind (mapM f xs) (\<lambda>ys. Inr (y # ys)))"

subsection \<open>Calendar\<close>

text \<open>A date is (year, month, day); Python compares dates in this lexicographic order.\<close>

type_synonym date = "int \<times> int \<times> int"

definition is_leap :: "int \<Rightarrow> bool" where
  "is_leap y = (y mod 4 = 0 \<and> (y mod 100 \<noteq> 0 \<or> y mod 400 = 0))"

definition days_in_month :: "int \<Rightarrow> int \<Rightarrow> int" where
  "days_in_month y m =
     (if m = 2 then (if is_leap y then 29 else 28)
      else if m = 4 \<or> m = 6 \<or> m = 9 \<or> m = 11 then 30 else 31)"

text \<open>Days since 1970-01-01 in the proleptic Gregorian calendar, and back.\<close>

definition days_from_civil :: "date \<Rightarrow> int" where
  "days_from_civil dt =
     (case dt of (y, m, d) \<Rightarrow>
        let y' = (if m \<le> 2 then y - 1 else y);
            era = y' div 400;
            yoe = y' - era * 400;
            doy = (153 * (if m > 2 then m - 3 else m + 9) + 2) div 5 + d - 1;
            doe = yoe * 365 + yoe div 4 - yoe div 100 + doy
        in era * 146097 + doe - 719468)"

definition civil_from_days :: "int \<Rightarrow> date" where
  "civil_from_days n =
     (let z = n + 719468;
          era = z div 146097;
          doe = z - era * 146097;
          yoe = (doe - doe div 1460 + doe div 36524 - doe div 146096) div 365;
          doy = doe - (365 * yoe + yoe div 4 - yoe div 100);
          mp = (5 * doy + 2) div 153;
          d = doy - (153 * mp + 2) div 5 + 1;
          m = (if mp < 10 then mp + 3 else mp - 9);
          y = yoe + era * 400 + (if m \<le> 2 then 1 else 0)
      in (y, m, d))"

text \<open>Day of the week of a day number, Monday = 0 (1970-01-01 was a Thursday).\<close>

definition weekday :: "int \<Rightarrow> int" where
  "weekday n = (n + 3) mod 7"

text \<open>
  \<open>dt.to_period('W')\<close> is the weekly period ending on Sunday that contains the date. The
  period is represented by the day number of its Monday; \<open>str\<close> of the period prints its
  first and last day. \<open>dt.to_period('M')\<close> is (year, month) and prints as \<open>YYYY-MM\<close>.
\<close>

definition to_period_W :: "date \<Rightarrow> int" where
  "to_period_W d = (let n = days_from_civil d in n - weekday n)"

definition to_period_M :: "date \<Rightarrow> int \<times> int" where
  "to_period_M d = (case d of (y, m, _) \<Rightarrow> (y, m))"

definition digit_char :: "int \<Rightarrow> char" where
  "digit_char n = char_of (48 + nat n)"

definition pad2 :: "int \<Rightarrow> string" where
  "pad2 n = [digit_char (n div 10 mod 10), digit_char (n mod 10)]"

definition pad4 :: "int \<Rightarrow> string" where
  "pad4 n = pad2 (n div 100) @ pad2 (n mod 100)"

definition date_str :: "date \<Rightarrow> string" where
  "date_str dt = (case dt of (y, m, d) \<Rightarrow> pad4 y @ ''-'' @ pad2 m @ ''-'' @ pad2 d)"

definition week_str :: "int \<Rightarrow> string" where
  "week_str w = date_str (civil_from_days w) @ ''/'' @ date_str (civil_from_days (w + 6))"

definition month_str :: "int \<times> int \<Rightarrow> string" where
  "month_str p = (case p of (y, m) \<Rightarrow> pad4 y @ ''-'' @ pad2 m)"

subsection \<open>Parsing timestamps\<close>

text \<open>
  A parsed timestamp: the date and the time of day as written (microseconds after
  midnight), and the UTC offset in seconds when the string carries one.
\<close>

record datetime =
  dt_date :: date
  dt_micros :: int
  dt_offset :: "int option"

definition digit :: "char \<Rightarrow> int option" where
  "digit c = (let n = (of_char c :: nat) in if 48 \<le> n \<and> n \<le> 57 then Some (int n - 48) else None)"

fun number :: "string \<Rightarrow> int option" where
  "number [] = None"
| "number [c] = digit c"
| "number cs = (case (number (butlast cs), digit (last cs)) of
      (Some n, Some d) \<Rightarrow> Some (10 * n + d) | _ \<Rightarrow> None)"

definition parse_date :: "string \<Rightarrow> date option" where
  "parse_date s =
     (if length s = 10 \<and> s ! 4 = CHR ''-'' \<and> s ! 7 = CHR ''-'' then
        (case (number (take 4 s), number (take 2 (drop 5 s)), number (drop 8 s)) of
           (Some y, Some m, Some d) \<Rightarrow>
             if 1 \<le> y \<and> 1 \<le> m \<and> m \<le> 12 \<and> 1 \<le> d \<and> d \<le> days_in_month y m
             then Some (y, m, d) else None
         | _ \<Rightarrow> None)
      else None)"

definition parse_clock :: "string \<Rightarrow> int option" where
  "parse_clock s =
     (if length s = 8 \<and> s ! 2 = CHR '':'' \<and> s ! 5 = CHR '':'' then
        (case (number (take 2 s), number (take 2 (drop 3 s)), number (drop 6 s)) of
           (Some h, Some mi, Some sec) \<Rightarrow>
             if h < 24 \<and> mi < 60 \<and> sec < 60
             then Some ((h * 3600 + mi * 60 + sec) * 1000000) else None
         | _ \<Rightarrow> None)
      else None)"

definition parse_fraction :: "string \<Rightarrow> int option" where
  "parse_fraction s =
     (if 1 \<le> length s \<and> length s \<le> 6 then
        (case number s of Some n \<Rightarrow> Some (n * 10 ^ (6 - length s)) | None \<Rightarrow> None)
      else None)"

definition parse_offset :: "string \<Rightarrow> int option option" where
  "parse_offset s =
     (if s = [] then Some None
      else if s = ''Z'' then Some (Some 0)
      else if length s = 6 \<and> (s ! 0 = CHR ''+'' \<or> s ! 0 = CHR ''-'') \<and> s ! 3 = CHR '':'' then
        (case (number (take 2 (drop 1 s)), number (drop 4 s)) of
           (Some h, Some mi) \<Rightarrow>
             if h < 24 \<and> mi < 60
             then Some (Some ((if s ! 0 = CHR ''-'' then - 1 else 1) * (h * 3600 + mi * 60)))
             else None
         | _ \<Rightarrow> None)
      else None)"

definition is_digit :: "char \<Rightarrow> bool" where
  "is_digit c = (digit c \<noteq> None)"

definition parse_time :: "string \<Rightarrow> (int \<times> int option) option" where
  "parse_time s =
     (if s = [] then Some (0, None)
      else if (hd s = CHR ''T'' \<or> hd s = CHR '' '') \<and> 9 \<le> length s then
        (case parse_clock (take 8 (tl s)) of
           None \<Rightarrow> None
         | Some us \<Rightarrow>
             let rest = drop 9 s in
             if rest \<noteq> [] \<and> hd rest = CHR ''.'' then
               (let ds = takeWhile is_digit (tl rest); tz = dropWhile is_digit (tl rest) in
                case (parse_fraction ds, parse_offset tz) of
                  (Some f, Some off) \<Rightarrow> Some (us + f, off) | _ \<Rightarrow> None)
             else
               (case parse_offset rest of Some off \<Rightarrow> Some (us, off) | None \<Rightarrow> None))
      else None)"

definition parse :: "string \<Rightarrow> error + datetime" where
  "parse s =
     (case (parse_date (take 10 s), parse_time (drop 10 s)) of
        (Some d, Some (us, off)) \<Rightarrow> Inr \<lparr>dt_date = d, dt_micros = us, dt_offset = off\<rparr>
      | _ \<Rightarrow> Inl (ValueError s))"

definition to_datetime :: "string \<Rightarrow> error + datetime" where
  "to_datetime s = parse s"

text \<open>
  Subtracting two datetimes: both naive (wall-clock difference) or both aware (difference
  of the instants); mixing them raises \<open>TypeError\<close>. \<open>total_seconds\<close> of the difference.
\<close>

definition wall_micros :: "datetime \<Rightarrow> int" where
  "wall_micros t = days_from_civil (dt_date t) * 86400000000 + dt_micros t"

definition total_seconds_between :: "datetime \<Rightarrow> datetime \<Rightarrow> error + rat" where
  "total_seconds_between deploy_time commit_time =
     (case (dt_offset deploy_time, dt_offset commit_time) of
        (None, None) \<Rightarrow>
          Inr (of_int (wall_micros deploy_time - wall_micros commit_time) / 1000000)
      | (Some od, Some oc) \<Rightarrow>
          Inr (of_int ((wall_micros deploy_time - od * 1000000)
                     - (wall_micros commit_time - oc * 1000000)) / 1000000)
      | _ \<Rightarrow> Inl (TypeError ''can't subtract offset-naive and offset-aware datetimes''))"

subsection \<open>Floats\<close>

datatype pyfloat = NaN | PosInf | Fin rat

text \<open>
  Division of one integer column by another gives a float column: pandas does not raise
  on a zero divisor, \<open>0 / 0\<close> is \<open>NaN\<close> and \<open>n / 0\<close> is \<open>inf\<close> for positive \<open>n\<close>.
\<close>

definition truediv :: "nat \<Rightarrow> nat \<Rightarrow> pyfloat" where
  "truediv a b = (if b = 0 then (if a = 0 then NaN else PosInf) else Fin (of_nat a / of_nat b))"

definition times :: "pyfloat \<Rightarrow> rat \<Rightarrow> pyfloat" where
  "times x c = (case x of Fin q \<Rightarrow> Fin (q * c) | _ \<Rightarrow> x)"

definition rint :: "rat \<Rightarrow> int" where
  "rint q =
     (let f = \<lfloor>q\<rfloor>; r = q - of_int f
      in if r < 1 / 2 then f else if 1 / 2 < r then f + 1 else if even f then f else f + 1)"

definition round_to :: "nat \<Rightarrow> pyfloat \<Rightarrow> pyfloat" where
  "round_to n x = (case x of Fin q \<Rightarrow> Fin (of_int (rint (q * 10 ^ n)) / 10 ^ n) | _ \<Rightarrow> x)"

subsection \<open>Grouping\<close>

text \<open>
  \<open>groupby\<close> visits the distinct keys in ascending order; the group of a key holds the
  rows with that key, in the order of the frame.
\<close>

definition group_keys :: "('r \<Rightarrow> 'k::linorder) \<Rightarrow> 'r list \<Rightarrow> 'k list" where
  "group_keys key df = sorted_list_of_set (set (map key df))"

definition group_rows :: "('r \<Rightarrow> 'k) \<Rightarrow> 'r list \<Rightarrow> 'k \<Rightarrow> 'r list" where
  "group_rows key df k = filter (\<lambda>r. key r = k) df"

text \<open>
  The loop of every extractor: records without the payload key are passed over, a record
  with the key is turned into a row, and an exception raised on the way leaves the loop.
\<close>

fun extract_rows :: "(metric \<Rightarrow> payload option) \<Rightarrow> (metric \<Rightarrow> payload \<Rightarrow> error + 'r) \<Rightarrow>
    metric list \<Rightarrow> error + 'r list" where
  "extract_rows key row [] = Inr []"
| "extract_rows key row (m # ms) =
     (case key m of
        None \<Rightarrow> extract_rows key row ms
      | Some p \<Rightarrow> bind (row m p) (\<lambda>r. bind (extract_rows key row ms) (\<lambda>rs. Inr (r # rs))))"

text \<open>What a \<open>calculate\_*\<close> function returns: \<open>pd.DataFrame()\<close> or a dict of frames.\<close>

datatype 'a frames = EmptyDataFrame | Frames 'a

subsection \<open>Deployment frequency\<close>

record 't deployment =
  dep_timestamp :: 't
  dep_service :: string
  deployment_id :: string
  branch :: string
  dep_commit_sha :: string

record deployment_raw = "datetime deployment" +
  dep_date :: date
  dep_week :: int
  dep_month :: "int \<times> int"

record 'b freq_row =
  fr_bucket :: 'b
  fr_service :: string
  deployment_count :: nat

record deployment_frames =
  dep_daily :: "date freq_row list"
  dep_weekly :: "string freq_row list"
  dep_monthly :: "string freq_row list"
  dep_raw :: "deployment_raw list"

definition deployment_row :: "metric \<Rightarrow> payload \<Rightarrow> error + string deployment" where
  "deployment_row m p =
     bind (field ''timestamp'' (timestamp m)) (\<lambda>ts.
     bind (field ''service'' (service m)) (\<lambda>sv.
     bind (getitem p ''deployment_id'') (\<lambda>did.
     Inr \<lparr>dep_timestamp = ts, dep_service = sv, deployment_id = did,
          branch = get p ''branch'' ''unknown'',
          dep_commit_sha = get p ''commit_sha'' []\<rparr>)))"

definition deployment_dated :: "string deployment \<Rightarrow> error + deployment_raw" where
  "deployment_dated r =
     bind (to_datetime (dep_timestamp r)) (\<lambda>t.
     Inr \<lparr>dep_timestamp = t, dep_service = dep_service r, deployment_id = deployment_id r,
          branch = branch r, dep_commit_sha = dep_commit_sha r,
          dep_date = dt_date t, dep_week = to_period_W (dt_date t),
          dep_month = to_period_M (dt_date t)\<rparr>)"

text \<open>\<open>df.groupby([bucket, 'service']).size().reset_index(name='deployment_count')\<close>\<close>

definition size_by :: "(deployment_raw \<Rightarrow> 'b::linorder) \<Rightarrow> deployment_raw list \<Rightarrow> 'b freq_row list" where
  "size_by bucket df =
     map (\<lambda>k. \<lparr>fr_bucket = fst k, fr_service = snd k,
               deployment_count = length (group_rows (\<lambda>r. (bucket r, dep_service r)) df k)\<rparr>)
       (group_keys (\<lambda>r. (bucket r, dep_service r)) df)"

definition relabel :: "('b \<Rightarrow> string) \<Rightarrow> 'b freq_row \<Rightarrow> string freq_row" where
  "relabel f r = \<lparr>fr_bucket = f (fr_bucket r), fr_service = fr_service r,
                  deployment_count = deployment_count r\<rparr>"

definition calculate_deployment_frequency :: "metric list \<Rightarrow> error + deployment_frames frames" where
  "calculate_deployment_frequency metrics =
     bind (extract_rows deployment_frequency deployment_row metrics) (\<lambda>deployments.
     if deployments = [] then Inr EmptyDataFrame
     else bind (mapM deployment_dated deployments) (\<lambda>df.
       Inr (Frames \<lparr>dep_daily = size_by dep_date df,
                    dep_weekly = map (relabel week_str) (size_by dep_week df),
                    dep_monthly = map (relabel month_str) (size_by dep_month df),
                    dep_raw = df\<rparr>)))"

subsection \<open>Lead time for changes\<close>

record lead_time =
  lt_timestamp :: string
  lt_service :: string
  lt_commit_sha :: string
  commit_timestamp :: datetime
  deploy_timestamp :: datetime
  lead_time_seconds :: rat
  lead_time_minutes :: rat
  lead_time_hours :: rat

record lead_time_raw = lead_time +
  lt_date :: date

record lead_time_daily =
  ld_date :: date
  ld_service :: string
  avg_lead_time_hours :: rat
  median_lead_time_hours :: rat
  min_lead_time_hours :: rat
  max_lead_time_hours :: rat

record lead_time_frames =
  daily_average :: "lead_time_daily list"
  lt_raw :: "lead_time_raw list"

definition lead_time_row :: "metric \<Rightarrow> payload \<Rightarrow> error + lead_time" where
  "lead_time_row m lt =
     bind (getitem lt ''commit_timestamp'') (\<lambda>cs.
     bind (parse cs) (\<lambda>commit_time.
     bind (getitem lt ''deploy_timestamp'') (\<lambda>ds.
     bind (parse ds) (\<lambda>deploy_time.
     bind (total_seconds_between deploy_time commit_time) (\<lambda>secs.
     bind (field ''timestamp'' (timestamp m)) (\<lambda>ts.
     bind (field ''service'' (service m)) (\<lambda>sv.
     Inr \<lparr>lt_timestamp = ts, lt_service = sv, lt_commit_sha = get lt ''commit_sha'' [],
          commit_timestamp = commit_time, deploy_timestamp = deploy_time,
          lead_time_seconds = secs, lead_time_minutes = secs / 60,
          lead_time_hours = secs / 3600\<rparr>)))))))"

definition lead_time_dated :: "lead_time \<Rightarrow> error + lead_time_raw" where
  "lead_time_dated r =
     bind (to_datetime (lt_timestamp r)) (\<lambda>t.
     Inr \<lparr>lt_timestamp = lt_timestamp r, lt_service = lt_service r,
          lt_commit_sha = lt_commit_sha r, commit_timestamp = commit_timestamp r,
          deploy_timestamp = deploy_timestamp r, lead_time_seconds = lead_time_seconds r,
          lead_time_minutes = lead_time_minutes r, lead_time_hours = lead_time_hours r,
          lt_date = dt_date t\<rparr>)"

text \<open>
  The four statistics of a non-empty group of values; \<open>min\<close> and \<open>max\<close> are also
  Python's built-ins on a non-empty list.
\<close>

definition mean :: "rat list \<Rightarrow> rat" where
  "mean xs = sum_list xs / of_nat (length xs)"

definition median :: "rat list \<Rightarrow> rat" where
  "median xs =
     (let ys = sort xs; n = length ys
      in if odd n then ys ! (n div 2) else (ys ! (n div 2 - 1) + ys ! (n div 2)) / 2)"

definition min_of :: "'a::linorder list \<Rightarrow> 'a" where
  "min_of xs = fold min (tl xs) (hd xs)"

definition max_of :: "'a::linorder list \<Rightarrow> 'a" where
  "max_of xs = fold max (tl xs) (hd xs)"

definition lead_time_agg :: "lead_time_raw list \<Rightarrow> date \<times> string \<Rightarrow> lead_time_daily" where
  "lead_time_agg df k =
     (let hours = map lead_time_hours (group_rows (\<lambda>r. (lt_date r, lt_service r)) df k)
      in \<lparr>ld_date = fst k, ld_service = snd k,
          avg_lead_time_hours = mean hours, median_lead_time_hours = median hours,
          min_lead_time_hours = min_of hours, max_lead_time_hours = max_of hours\<rparr>)"

definition calculate_lead_time :: "metric list \<Rightarrow> error + lead_time_frames frames" where
  "calculate_lead_time metrics =
     bind (extract_rows lead_time_for_changes lead_time_row metrics) (\<lambda>lead_times.
     if lead_times = [] then Inr EmptyDataFrame
     else bind (mapM lead_time_dated lead_times) (\<lambda>df.
       Inr (Frames \<lparr>daily_average =
                      map (lead_time_agg df) (group_keys (\<lambda>r. (lt_date r, lt_service r)) df),
                    lt_raw = df\<rparr>)))"

subsection \<open>Change failure rate\<close>

record 't change =
  chg_timestamp :: 't
  chg_service :: string
  status :: string
  workflow_run_id :: string
  chg_commit_sha :: string

record change_raw = "datetime change" +
  chg_date :: date
  chg_week :: int

text \<open>
  A row of the unstacked frame after \<open>reset_index\<close>: the bucket, the service, the columns
  \<open>success\<close> and \<open>failure\<close>, the count columns of the other status values, and the derived
  columns. The daily frame has \<open>success_rate\<close> as well.
\<close>

record 'b cfr_row =
  cfr_bucket :: 'b
  cfr_service :: string
  success :: nat
  failure :: nat
  other_statuses :: "(string \<times> nat) list"
  total_changes :: nat
  failure_rate :: pyfloat

record 'b cfr_daily_row = "'b cfr_row" +
  success_rate :: pyfloat

record change_frames =
  cfr_daily :: "date cfr_daily_row list"
  cfr_weekly :: "string cfr_row list"
  cfr_raw :: "change_raw list"

definition change_row :: "metric \<Rightarrow> payload \<Rightarrow> error + string change" where
  "change_row m cfr =
     bind (field ''timestamp'' (timestamp m)) (\<lambda>ts.
     bind (field ''service'' (service m)) (\<lambda>sv.
     bind (getitem cfr ''status'') (\<lambda>st.
     Inr \<lparr>chg_timestamp = ts, chg_service = sv, status = st,
          workflow_run_id = get cfr ''workflow_run_id'' [],
          chg_commit_sha = get cfr ''commit_sha'' []\<rparr>)))"

definition change_dated :: "string change \<Rightarrow> error + change_raw" where
  "change_dated r =
     bind (to_datetime (chg_timestamp r)) (\<lambda>t.
     Inr \<lparr>chg_timestamp = t, chg_service = chg_service r, status = status r,
          workflow_run_id = workflow_run_id r, chg_commit_sha = chg_commit_sha r,
          chg_date = dt_date t, chg_week = to_period_W (dt_date t)\<rparr>)"

text \<open>
  \<open>df.groupby([bucket, 'service', 'status']).size().unstack(fill_value=0)\<close>: one row per
  (bucket, service) of the frame, one column per status value of the frame, each cell the
  number of rows with that bucket, service and status.
\<close>

definition cell :: "(change_raw \<Rightarrow> 'b) \<Rightarrow> change_raw list \<Rightarrow> 'b \<times> string \<Rightarrow> string \<Rightarrow> nat" where
  "cell bucket df k s =
     length (filter (\<lambda>r. (bucket r, chg_service r) = k \<and> status r = s) df)"

text \<open>
  The columns \<open>success\<close> and \<open>failure\<close> are read from the frame, or added with zeros when no
  row of the frame has that status. Assigning a derived column replaces a status column of
  the same name.
\<close>

definition unstacked_row :: "(change_raw \<Rightarrow> 'b) \<Rightarrow> change_raw list \<Rightarrow> string list \<Rightarrow>
    string list \<Rightarrow> 'b \<times> string \<Rightarrow> 'b cfr_row" where
  "unstacked_row bucket df columns derived k =
     (let succ = (if ''success'' \<in> set columns then cell bucket df k ''success'' else 0);
          fail = (if ''failure'' \<in> set columns then cell bucket df k ''failure'' else 0);
          total = succ + fail
      in \<lparr>cfr_bucket = fst k, cfr_service = snd k, success = succ, failure = fail,
          other_statuses =
            map (\<lambda>s. (s, cell bucket df k s))
              (filter (\<lambda>s. s \<notin> set ([''success'', ''failure''] @ derived)) columns),
          total_changes = total,
          failure_rate = round_to 2 (times (truediv fail total) 100)\<rparr>)"

definition with_success_rate :: "'b cfr_row \<Rightarrow> 'b cfr_daily_row" where
  "with_success_rate r =
     cfr_row.extend r
       (cfr_daily_row.fields (round_to 2 (times (truediv (success r) (total_changes r)) 100)))"

text \<open>\<open>reset_index\<close> cannot insert an index level whose name is already a column.\<close>

definition reset_index :: "string \<Rightarrow> string list \<Rightarrow> 'a \<Rightarrow> error + 'a" where
  "reset_index level columns frame =
     (if ''service'' \<in> set columns then Inl (ValueError ''cannot insert service, already exists'')
      else if level \<in> set columns then Inl (ValueError (''cannot insert '' @ level @ '', already exists''))
      else Inr frame)"

definition stringify :: "('b \<Rightarrow> string) \<Rightarrow> 'b cfr_row \<Rightarrow> string cfr_row" where
  "stringify f r =
     \<lparr>cfr_bucket = f (cfr_bucket r), cfr_service = cfr_service r, success = success r,
      failure = failure r, other_statuses = other_statuses r,
      total_changes = total_changes r, failure_rate = failure_rate r\<rparr>"

definition calculate_change_failure_rate :: "metric list \<Rightarrow> error + change_frames frames" where
  "calculate_change_failure_rate metrics =
     bind (extract_rows change_failure_rate change_row metrics) (\<lambda>changes.
     if changes = [] then Inr EmptyDataFrame
     else bind (mapM change_dated changes) (\<lambda>df.
       let columns = group_keys status df in
       bind (reset_index ''date'' columns
              (map (\<lambda>k. with_success_rate
                     (unstacked_row chg_date df columns
                        [''total_changes'', ''failure_rate'', ''success_rate''] k))
                 (group_keys (\<lambda>r. (chg_date r, chg_service r)) df))) (\<lambda>daily_cfr.
       bind (reset_index ''week'' columns
              (map (unstacked_row chg_week df columns [''total_changes'', ''failure_rate''])
                 (group_keys (\<lambda>r. (chg_week r, chg_service r)) df))) (\<lambda>weekly_cfr.
       Inr (Frames \<lparr>cfr_daily = daily_cfr,
                    cfr_weekly = map (stringify week_str) weekly_cfr,
                    cfr_raw = df\<rparr>)))))"

subsection \<open>Loading and exporting\<close>

text \<open>
  The directory \<open>metrics/raw\<close>: absent, or the files met by \<open>os.walk\<close> in its order, each
  with the object that \<open>json.load\<close> returns, \<open>None\<close> when opening or loading it raises.
\<close>

datatype raw_dir = NoDirectory | Directory "(string \<times> metric option) list"

definition endswith :: "string \<Rightarrow> string \<Rightarrow> bool" where
  "endswith s suffix = (length suffix \<le> length s \<and> drop (length s - length suffix) s = suffix)"

fun load_files :: "(string \<times> metric option) list \<Rightarrow> metric list" where
  "load_files [] = []"
| "load_files ((file, content) # rest) =
     (if endswith file ''.json'' then
        (case content of Some data \<Rightarrow> data # load_files rest | None \<Rightarrow> load_files rest)
      else load_files rest)"

definition load_metrics :: "raw_dir \<Rightarrow> metric list" where
  "load_metrics raw = (case raw of NoDirectory \<Rightarrow> [] | Directory files \<Rightarrow> load_files files)"

record summary =
  generated_at :: string
  total_metrics :: nat
  date_range_start :: string
  date_range_end :: string

datatype content =
    DeploymentDaily "date freq_row list"
  | DeploymentPeriod "string freq_row list"
  | LeadTimeDaily "lead_time_daily list"
  | LeadTimeRaw "lead_time_raw list"
  | ChangeFailureDaily "date cfr_daily_row list"
  | ChangeFailureWeekly "string cfr_row list"
  | Summary summary

type_synonym files = "(string \<times> content) list"

datatype outcome = NoMetricsFound | Raised error | Complete summary

text \<open>
  The truth value of what a \<open>calculate\_*\<close> function returned, as the \<open>if\<close> statements of
  the exporter take it: a dict with keys is true, and pandas refuses to give any
  \<open>DataFrame\<close>, empty or not, a truth value.
\<close>

definition truth :: "'a frames \<Rightarrow> error + bool" where
  "truth x =
     (case x of
        EmptyDataFrame \<Rightarrow> Inl (ValueError ''The truth value of a DataFrame is ambiguous'')
      | Frames _ \<Rightarrow> Inr True)"

definition powerbi :: "string \<Rightarrow> string \<Rightarrow> string" where
  "powerbi name stamp = ''metrics/powerbi/'' @ name @ ''_'' @ stamp @ ''.csv''"

definition export_deployment_frequency :: "string \<Rightarrow> deployment_frames frames \<Rightarrow> files \<Rightarrow> error + files" where
  "export_deployment_frequency stamp deployment_freq written =
     bind (truth deployment_freq) (\<lambda>_.
       case deployment_freq of
         Frames t \<Rightarrow>
           Inr (if dep_daily t \<noteq> [] then
                  written @
                  [(powerbi ''deployment_frequency_daily'' stamp, DeploymentDaily (dep_daily t)),
                   (powerbi ''deployment_frequency_weekly'' stamp, DeploymentPeriod (dep_weekly t)),
                   (powerbi ''deployment_frequency_monthly'' stamp, DeploymentPeriod (dep_monthly t))]
                else written)
       | EmptyDataFrame \<Rightarrow> Inr written)"

definition export_lead_time :: "string \<Rightarrow> lead_time_frames frames \<Rightarrow> files \<Rightarrow> error + files" where
  "export_lead_time stamp lead_time written =
     bind (truth lead_time) (\<lambda>_.
       case lead_time of
         Frames t \<Rightarrow>
           Inr (if daily_average t \<noteq> [] then
                  written @
                  [(powerbi ''lead_time_daily'' stamp, LeadTimeDaily (daily_average t)),
                   (powerbi ''lead_time_raw'' stamp, LeadTimeRaw (lt_raw t))]
                else written)
       | EmptyDataFrame \<Rightarrow> Inr written)"

definition export_change_failure_rate :: "string \<Rightarrow> change_frames frames \<Rightarrow> files \<Rightarrow> error + files" where
  "export_change_failure_rate stamp cfr written =
     bind (truth cfr) (\<lambda>_.
       case cfr of
         Frames t \<Rightarrow>
           Inr (if cfr_daily t \<noteq> [] then
                  written @
                  [(powerbi ''change_failure_rate_daily'' stamp, ChangeFailureDaily (cfr_daily t)),
                   (powerbi ''change_failure_rate_weekly'' stamp, ChangeFailureWeekly (cfr_weekly t))]
                else written)
       | EmptyDataFrame \<Rightarrow> Inr written)"

definition make_summary :: "string \<Rightarrow> metric list \<Rightarrow> error + summary" where
  "make_summary now metrics =
     bind (mapM (\<lambda>m. field ''timestamp'' (timestamp m)) metrics) (\<lambda>starts.
     bind (mapM (\<lambda>m. field ''timestamp'' (timestamp m)) metrics) (\<lambda>ends.
     Inr \<lparr>generated_at = now, total_metrics = length metrics,
          date_range_start = min_of starts, date_range_end = max_of ends\<rparr>))"

text \<open>
  The run. \<open>stamp\<close> is the date stamp \<open>%Y%m%d\<close> of the run and \<open>now\<close> its ISO time. The
  result is the list of files written, in order, and how the run ended; files written
  before an exception stay written.
\<close>

definition generate_powerbi_export :: "raw_dir \<Rightarrow> string \<Rightarrow> string \<Rightarrow> files \<times> outcome" where
  "generate_powerbi_export raw stamp now =
     (let metrics = load_metrics raw in
      if metrics = [] then ([], NoMetricsFound)
      else
        (case calculate_deployment_frequency metrics of Inl e \<Rightarrow> ([], Raised e)
         | Inr deployment_freq \<Rightarrow>
        (case calculate_lead_time metrics of Inl e \<Rightarrow> ([], Raised e)
         | Inr lead_time \<Rightarrow>
        (case calculate_change_failure_rate metrics of Inl e \<Rightarrow> ([], Raised e)
         | Inr cfr \<Rightarrow>
        (case export_deployment_frequency stamp deployment_freq [] of Inl e \<Rightarrow> ([], Raised e)
         | Inr w1 \<Rightarrow>
        (case export_lead_time stamp lead_time w1 of Inl e \<Rightarrow> (w1, Raised e)
         | Inr w2 \<Rightarrow>
        (case export_change_failure_rate stamp cfr w2 of Inl e \<Rightarrow> (w2, Raised e)
         | Inr w3 \<Rightarrow>
        (case make_summary now metrics of Inl e \<Rightarrow> (w3, Raised e)
         | Inr s \<Rightarrow>
           (w3 @ [(''metrics/aggregated/summary_'' @ stamp @ ''.json'', Summary s)],
            Complete s)))))))))"

subsection \<open>Notions used by the properties\<close>

text \<open>Float addition, for sums of rates: anything plus \<open>NaN\<close> is \<open>NaN\<close>.\<close>

definition add :: "pyfloat \<Rightarrow> pyfloat \<Rightarrow> pyfloat" where
  "add x y =
     (case (x, y) of
        (Fin a, Fin b) \<Rightarrow> Fin (a + b)
      | (NaN, _) \<Rightarrow> NaN
      | (_, NaN) \<Rightarrow> NaN
      | _ \<Rightarrow> PosInf)"

text \<open>
  The instant a parsed timestamp denotes, in microseconds: the wall-clock reading, moved
  to UTC when the timestamp carries an offset. Two timestamps are comparable when both
  carry an offset or neither does.
\<close>

definition instant :: "datetime \<Rightarrow> int" where
  "instant t =
     (case dt_offset t of None \<Rightarrow> wall_micros t | Some off \<Rightarrow> wall_micros t - off * 1000000)"

definition comparable :: "datetime \<Rightarrow> datetime \<Rightarrow> bool" where
  "comparable a b = ((dt_offset a = None) = (dt_offset b = None))"

text \<open>
  Two dates fall in the same ISO week when one Monday-to-Sunday span of seven days holds
  both: some Monday among the seven days up to the first date is at most six days before
  each of them.
\<close>

definition same_iso_week :: "date \<Rightarrow> date \<Rightarrow> bool" where
  "same_iso_week d1 d2 =
     (let n1 = days_from_civil d1; n2 = days_from_civil d2
      in \<exists>monday \<in> {n1 - 6 .. n1}. weekday monday = 0 \<and> monday \<le> n2 \<and> n2 \<le> monday + 6)"

text \<open>
  A record that has a metric's payload key while the payload lacks a field the extractor
  of that metric reads with \<open>[...]\<close>.
\<close>

definition lacks :: "payload option \<Rightarrow> string list \<Rightarrow> bool" where
  "lacks payload required =
     (case payload of None \<Rightarrow> False | Some p \<Rightarrow> \<exists>k \<in> set required. map_of p k = None)"

definition has_key :: "(metric \<Rightarrow> payload option) \<Rightarrow> metric \<Rightarrow> bool" where
  "has_key key m = (key m \<noteq> None)"

subsection \<open>Example records\<close>

definition event :: "string \<Rightarrow> string \<Rightarrow> metric" where
  "event ts sv =
     \<lparr>timestamp = Some ts, service = Some sv, deployment_frequency = None,
      lead_time_for_changes = None, change_failure_rate = None\<rparr>"

definition deployment_event :: "string \<Rightarrow> string \<Rightarrow> payload \<Rightarrow> metric" where
  "deployment_event ts sv p = (event ts sv)\<lparr>deployment_frequency := Some p\<rparr>"

definition lead_time_event :: "string \<Rightarrow> string \<Rightarrow> payload \<Rightarrow> metric" where
  "lead_time_event ts sv p = (event ts sv)\<lparr>lead_time_for_changes := Some p\<rparr>"

definition change_event :: "string \<Rightarrow> string \<Rightarrow> payload \<Rightarrow> metric" where
  "change_event ts sv p = (event ts sv)\<lparr>change_failure_rate := Some p\<rparr>"

definition stamped :: "int \<Rightarrow> int \<Rightarrow> datetime" where
  "stamped day hour =
     \<lparr>dt_date = (2024, 1, day), dt_micros = hour * 3600000000, dt_offset = Some 0\<rparr>"

text \<open>The rows of the daily and weekly change-failure frames of a result, if it has any.\<close>

definition daily_rows :: "error + change_frames frames \<Rightarrow> date cfr_daily_row list" where
  "daily_rows res = (case res of Inr (Frames t) \<Rightarrow> cfr_daily t | _ \<Rightarrow> [])"

definition weekly_rows :: "error + change_frames frames \<Rightarrow> string cfr_row list" where
  "weekly_rows res = (case res of Inr (Frames t) \<Rightarrow> cfr_weekly t | _ \<Rightarrow> [])"

definition rate_sum :: "'b cfr_daily_row \<Rightarrow> pyfloat" where
  "rate_sum r = add (success_rate r) (failure_rate r)"

text \<open>
  What the failure rate of a row is, by its total: with changes, the percentage of
  failures to two decimals, between 0 and 100 and within half a hundredth of the exact
  percentage; without changes, \<open>NaN\<close>.
\<close>

definition percentage :: "nat \<Rightarrow> nat \<Rightarrow> rat" where
  "percentage part whole = of_nat part / of_nat whole * 100"

definition rate_of :: "nat \<Rightarrow> nat \<Rightarrow> pyfloat \<Rightarrow> bool" where
  "rate_of part whole rate =
     (case rate of
        Fin q \<Rightarrow>
          0 < whole \<and> q = of_int (rint (percentage part whole * 100)) / 100 \<and>
          0 \<le> q \<and> q \<le> 100 \<and> \<bar>q - percentage part whole\<bar> \<le> 1 / 200
      | NaN \<Rightarrow> whole = 0
      | PosInf \<Rightarrow> False)"

definition has_frames :: "error + 'a frames \<Rightarrow> bool" where
  "has_frames res = (case res of Inr (Frames _) \<Rightarrow> True | _ \<Rightarrow> False)"

definition sample_changes :: "metric list" where
  "sample_changes =
     [change_event ''2024-01-01T10:00:00Z'' ''A'' [(''status'', ''success'')],
      change_event ''2024-01-01T11:00:00Z'' ''A'' [(''status'', ''failure'')],
      change_event ''2024-01-01T12:00:00Z'' ''A'' [(''status'', ''failure'')],
      change_event ''2024-01-09T12:00:00Z'' ''A'' [(''status'', ''skipped'')]]"

text \<open>The frames of a deployment result, for stating examples.\<close>

definition deployment_tables :: "error + deployment_frames frames \<Rightarrow> deployment_frames option" where
  "deployment_tables res = (case res of Inr (Frames t) \<Rightarrow> Some t | _ \<Rightarrow> None)"

text \<open>The daily rows of one service that fall in one weekly period.\<close>

definition days_of_week :: "int \<Rightarrow> string \<Rightarrow> date freq_row list \<Rightarrow> date freq_row list" where
  "days_of_week week sv daily =
     filter (\<lambda>d. to_period_W (fr_bucket d) = week \<and> fr_service d = sv) daily"

definition sample_deployments :: "metric list" where
  "sample_deployments =
     [deployment_event ''2024-01-01T09:00:00Z'' ''A'' [(''deployment_id'', ''d-1'')],
      deployment_event ''2024-01-01T17:00:00Z'' ''A'' [(''deployment_id'', ''d-2'')],
      deployment_event ''2024-01-03T09:00:00Z'' ''A'' [(''deployment_id'', ''d-3'')],
      deployment_event ''2024-01-07T23:00:00Z'' ''B'' [(''deployment_id'', ''d-4'')],
      deployment_event ''2024-01-08T00:30:00Z'' ''A'' [(''deployment_id'', ''d-5'')]]"

text \<open>The lead times, in hours, of all rows of one (date, service) bucket of the raw frame.\<close>

definition bucket_hours :: "lead_time_raw list \<Rightarrow> date \<Rightarrow> string \<Rightarrow> rat list" where
  "bucket_hours df d sv = map lead_time_hours (filter (\<lambda>x. lt_date x = d \<and> lt_service x = sv) df)"

definition lead_time_tables :: "error + lead_time_frames frames \<Rightarrow> lead_time_frames option" where
  "lead_time_tables res = (case res of Inr (Frames t) \<Rightarrow> Some t | _ \<Rightarrow> None)"

definition skewed_event :: metric where
  "skewed_event =
     lead_time_event ''2024-01-01T12:30:00Z'' ''A''
       [(''commit_timestamp'', ''2024-01-01T12:00:00Z''),
        (''deploy_timestamp'', ''2024-01-01T11:00:00Z'')]"

definition sample_lead_times :: "metric list" where
  "sample_lead_times =
     [lead_time_event ''2024-01-01T10:30:00Z'' ''A''
        [(''commit_timestamp'', ''2024-01-01T08:00:00Z''),
         (''deploy_timestamp'', ''2024-01-01T10:00:00Z'')],
      skewed_event]"

section \<open>Properties\<close>

subsection \<open>Basic facts\<close>

lemma bind_simps [simp]: "bind (Inl e) f = Inl e" "bind (Inr x) f = f x"
  by (simp_all add: bind_def)

lemma rint_of_int [simp]: "rint (of_int n) = n"
  by (simp add: rint_def)

subsection \<open>The end-to-end scenario\<close>


lemma parse_examples:
  "to_datetime ''2024-01-01T09:30:00Z'' = Inr \<lparr>dt_date = (2024, 1, 1), dt_micros = 34200000000, dt_offset = Some 0\<rparr>"
  "to_datetime ''2024-01-01T10:00:00Z'' = Inr (stamped 1 10)"
  "to_datetime ''2024-01-01T23:59:59Z'' = Inr \<lparr>dt_date = (2024, 1, 1), dt_micros = 86399000000, dt_offset = Some 0\<rparr>"
  by code_simp+


subsection \<open>Exceptions leave the loop and the run\<close>

lemma bind_Inr_iff: "bind r f = Inr y \<longleftrightarrow> (\<exists>x. r = Inr x \<and> f x = Inr y)"
  by (cases r) simp_all

lemma bind_Inl_iff: "bind r f = Inl e \<longleftrightarrow> r = Inl e \<or> (\<exists>x. r = Inr x \<and> f x = Inl e)"
  by (cases r) simp_all

lemma mapM_Inr: "mapM f xs = Inr ys \<Longrightarrow> list_all2 (\<lambda>x y. f x = Inr y) xs ys"
proof (induction xs arbitrary: ys)
  case Nil
  then show ?case by simp
next
  case (Cons x xs)
  from Cons.prems obtain y ys' where "f x = Inr y" "mapM f xs = Inr ys'" "ys = y # ys'"
    by (auto simp: bind_Inr_iff)
  with Cons.IH show ?case by simp
qed

lemma extract_rows_Inr:
  "extract_rows key row ms = Inr rs \<Longrightarrow>
   list_all2 (\<lambda>m r. \<exists>p. key m = Some p \<and> row m p = Inr r) (filter (has_key key) ms) rs"
proof (induction ms arbitrary: rs)
  case Nil
  then show ?case by simp
next
  case (Cons m ms)
  show ?case
  proof (cases "key m")
    case None
    with Cons show ?thesis by (simp add: has_key_def)
  next
    case (Some p)
    with Cons.prems obtain r rs' where "row m p = Inr r" "extract_rows key row ms = Inr rs'" "rs = r # rs'"
      by (auto simp: bind_Inr_iff)
    with Cons.IH Some show ?thesis by (simp add: has_key_def)
  qed
qed

lemma extract_rows_Inl:
  "m \<in> set ms \<Longrightarrow> key m = Some p \<Longrightarrow> row m p = Inl e \<Longrightarrow> \<exists>e'. extract_rows key row ms = Inl e'"
proof (induction ms)
  case Nil
  then show ?case by simp
next
  case (Cons a ms)
  show ?case
  proof (cases "a = m")
    case True
    with Cons.prems show ?thesis by simp
  next
    case False
    with Cons obtain e' where "extract_rows key row ms = Inl e'" by auto
    then show ?thesis by (cases "key a"; cases "row a (the (key a))") auto
  qed
qed

lemma extract_rows_empty:
  "\<forall>m\<in>set ms. key m = None \<Longrightarrow> extract_rows key row ms = Inr []"
  by (induction ms) auto

lemma deployment_row_lacks:
  "map_of p ''deployment_id'' = None \<Longrightarrow> \<exists>e. deployment_row m p = Inl e"
  by (cases "timestamp m"; cases "service m")
     (simp_all add: deployment_row_def field_def getitem_def)

lemma change_row_lacks:
  "map_of p ''status'' = None \<Longrightarrow> \<exists>e. change_row m p = Inl e"
  by (cases "timestamp m"; cases "service m")
     (simp_all add: change_row_def field_def getitem_def)

lemma lead_time_row_lacks:
  assumes "map_of p ''commit_timestamp'' = None \<or> map_of p ''deploy_timestamp'' = None"
  shows "\<exists>e. lead_time_row m p = Inl e"
proof (cases "map_of p ''commit_timestamp''")
  case None
  then show ?thesis by (simp add: lead_time_row_def field_def getitem_def)
next
  case (Some cs)
  with assms have "map_of p ''deploy_timestamp'' = None" by simp
  with Some show ?thesis
    by (cases "parse cs") (simp_all add: lead_time_row_def field_def getitem_def)
qed

lemma deployment_frequency_raises:
  assumes "m \<in> set ms" "lacks (deployment_frequency m) [''deployment_id'']"
  shows "\<exists>e. calculate_deployment_frequency ms = Inl e"
proof -
  from assms(2) obtain p where p: "deployment_frequency m = Some p" "map_of p ''deployment_id'' = None"
    by (auto simp: lacks_def split: option.splits)
  from deployment_row_lacks[OF p(2)] obtain e where "deployment_row m p = Inl e" by blast
  from extract_rows_Inl[where key = deployment_frequency and row = deployment_row, OF assms(1) p(1) this]
  show ?thesis by (auto simp: calculate_deployment_frequency_def)
qed

lemma lead_time_raises:
  assumes "m \<in> set ms" "lacks (lead_time_for_changes m) [''commit_timestamp'', ''deploy_timestamp'']"
  shows "\<exists>e. calculate_lead_time ms = Inl e"
proof -
  from assms(2) obtain p where p: "lead_time_for_changes m = Some p"
      "map_of p ''commit_timestamp'' = None \<or> map_of p ''deploy_timestamp'' = None"
    by (auto simp: lacks_def split: option.splits)
  from lead_time_row_lacks[OF p(2)] obtain e where "lead_time_row m p = Inl e" by blast
  from extract_rows_Inl[where key = lead_time_for_changes and row = lead_time_row, OF assms(1) p(1) this]
  show ?thesis by (auto simp: calculate_lead_time_def)
qed

lemma change_failure_rate_raises:
  assumes "m \<in> set ms" "lacks (change_failure_rate m) [''status'']"
  shows "\<exists>e. calculate_change_failure_rate ms = Inl e"
proof -
  from assms(2) obtain p where p: "change_failure_rate m = Some p" "map_of p ''status'' = None"
    by (auto simp: lacks_def split: option.splits)
  from change_row_lacks[OF p(2)] obtain e where "change_row m p = Inl e" by blast
  from extract_rows_Inl[where key = change_failure_rate and row = change_row, OF assms(1) p(1) this]
  show ?thesis by (auto simp: calculate_change_failure_rate_def)
qed

lemma aggregation_error_aborts:
  assumes "load_metrics raw \<noteq> []"
    and "(\<exists>e. calculate_deployment_frequency (load_metrics raw) = Inl e) \<or>
         (\<exists>e. calculate_lead_time (load_metrics raw) = Inl e) \<or>
         (\<exists>e. calculate_change_failure_rate (load_metrics raw) = Inl e)"
  shows "\<exists>e. generate_powerbi_export raw stamp now = ([], Raised e)"
  using assms
  by (cases "calculate_deployment_frequency (load_metrics raw)";
      cases "calculate_lead_time (load_metrics raw)";
      cases "calculate_change_failure_rate (load_metrics raw)")
     (auto simp: generate_powerbi_export_def Let_def)

text \<open>
  C1, as the code has it. No extractor catches anything: a loaded record that has a
  metric's payload key while the payload lacks a field the extractor reads with \<open>[...]\<close>
  (\<open>deployment_id\<close>; \<open>commit_timestamp\<close> or \<open>deploy_timestamp\<close>; \<open>status\<close>) makes the
  \<open>calculate\_*\<close> function of that metric raise, so that metric gets no table at all, and
  the run ends with an exception before any file is written.
\<close>

theorem missing_required_field_raises:
  assumes "m \<in> set (load_metrics raw)"
    and "lacks (deployment_frequency m) [''deployment_id''] \<or>
         lacks (lead_time_for_changes m) [''commit_timestamp'', ''deploy_timestamp''] \<or>
         lacks (change_failure_rate m) [''status'']"
  shows "(lacks (deployment_frequency m) [''deployment_id''] \<longrightarrow>
            (\<exists>e. calculate_deployment_frequency (load_metrics raw) = Inl e)) \<and>
         (lacks (lead_time_for_changes m) [''commit_timestamp'', ''deploy_timestamp''] \<longrightarrow>
            (\<exists>e. calculate_lead_time (load_metrics raw) = Inl e)) \<and>
         (lacks (change_failure_rate m) [''status''] \<longrightarrow>
            (\<exists>e. calculate_change_failure_rate (load_metrics raw) = Inl e)) \<and>
         (\<exists>e. generate_powerbi_export raw stamp now = ([], Raised e))"
proof -
  have ne: "load_metrics raw \<noteq> []" using assms(1) by auto
  have "(\<exists>e. calculate_deployment_frequency (load_metrics raw) = Inl e) \<or>
        (\<exists>e. calculate_lead_time (load_metrics raw) = Inl e) \<or>
        (\<exists>e. calculate_change_failure_rate (load_metrics raw) = Inl e)"
    using assms deployment_frequency_raises lead_time_raises change_failure_rate_raises by blast
  from aggregation_error_aborts[OF ne this]
  show ?thesis
    using assms(1) deployment_frequency_raises lead_time_raises change_failure_rate_raises
    by blast
qed

text \<open>A lead-time record without \<open>deploy_timestamp\<close>, loaded after a sound deployment record.\<close>

theorem missing_required_field_raises_witness:
  "(\<exists>e. calculate_lead_time
           (load_metrics (Directory
             [(''a.json'', Some (deployment_event ''2024-01-01T09:30:00Z'' ''A'' [(''deployment_id'', ''d-1'')])),
              (''b.json'', Some (lead_time_event ''2024-01-02T09:30:00Z'' ''A''
                                   [(''commit_timestamp'', ''2024-01-02T08:00:00Z'')]))])) = Inl e) \<and>
   (\<exists>e. generate_powerbi_export
           (Directory
             [(''a.json'', Some (deployment_event ''2024-01-01T09:30:00Z'' ''A'' [(''deployment_id'', ''d-1'')])),
              (''b.json'', Some (lead_time_event ''2024-01-02T09:30:00Z'' ''A''
                                   [(''commit_timestamp'', ''2024-01-02T08:00:00Z'')]))])
           ''20240103'' ''2024-01-03T08:00:00'' = ([], Raised e))"
proof -
  let ?m = "lead_time_event ''2024-01-02T09:30:00Z'' ''A'' [(''commit_timestamp'', ''2024-01-02T08:00:00Z'')]"
  let ?raw = "Directory
             [(''a.json'', Some (deployment_event ''2024-01-01T09:30:00Z'' ''A'' [(''deployment_id'', ''d-1'')])),
              (''b.json'', Some ?m)]"
  have h1: "?m \<in> set (load_metrics ?raw)"
    by (simp add: load_metrics_def endswith_def)
  have h2: "lacks (lead_time_for_changes ?m) [''commit_timestamp'', ''deploy_timestamp'']"
    by (simp add: lacks_def lead_time_event_def event_def)
  from missing_required_field_raises[OF h1 disjI2[OF disjI1[OF h2]], of "''20240103''" "''2024-01-03T08:00:00''"] h2
  show ?thesis by blast
qed

text \<open>
  C1, as it is stated, fails: the second record has the key \<open>deployment_frequency\<close> without
  \<open>deployment_id\<close>. It is not skipped; the \<open>KeyError\<close> takes the first, well-formed
  record with it, and the whole run.
\<close>

theorem missing_deployment_id_aborts_run:
  "calculate_deployment_frequency
     [deployment_event ''2024-01-01T09:30:00Z'' ''A'' [(''deployment_id'', ''d-1'')],
      deployment_event ''2024-01-02T09:30:00Z'' ''A'' [(''branch'', ''main'')]]
     = Inl (KeyError ''deployment_id'') \<and>
   generate_powerbi_export
     (Directory
        [(''a.json'', Some (deployment_event ''2024-01-01T09:30:00Z'' ''A'' [(''deployment_id'', ''d-1'')])),
         (''b.json'', Some (deployment_event ''2024-01-02T09:30:00Z'' ''A'' [(''branch'', ''main'')]))])
     ''20240103'' ''2024-01-03T08:00:00''
     = ([], Raised (KeyError ''deployment_id''))"
  by code_simp

subsection \<open>A metric without records\<close>

lemma deployment_frequency_empty:
  "\<forall>m\<in>set ms. deployment_frequency m = None \<Longrightarrow>
   calculate_deployment_frequency ms = Inr EmptyDataFrame"
  by (simp add: calculate_deployment_frequency_def extract_rows_empty)

lemma lead_time_empty:
  "\<forall>m\<in>set ms. lead_time_for_changes m = None \<Longrightarrow>
   calculate_lead_time ms = Inr EmptyDataFrame"
  by (simp add: calculate_lead_time_def extract_rows_empty)

lemma change_failure_rate_empty:
  "\<forall>m\<in>set ms. change_failure_rate m = None \<Longrightarrow>
   calculate_change_failure_rate ms = Inr EmptyDataFrame"
  by (simp add: calculate_change_failure_rate_def extract_rows_empty)

lemma empty_frame_stops_export:
  assumes "load_metrics raw \<noteq> []"
    and "calculate_deployment_frequency (load_metrics raw) = Inr EmptyDataFrame \<or>
         calculate_lead_time (load_metrics raw) = Inr EmptyDataFrame \<or>
         calculate_change_failure_rate (load_metrics raw) = Inr EmptyDataFrame"
  shows "\<exists>files e. generate_powerbi_export raw stamp now = (files, Raised e)"
proof (cases "calculate_deployment_frequency (load_metrics raw)")
  case (Inl e)
  with assms(1) show ?thesis by (simp add: generate_powerbi_export_def Let_def)
next
  case d: (Inr d)
  show ?thesis
  proof (cases "calculate_lead_time (load_metrics raw)")
    case (Inl e)
    with assms(1) d show ?thesis by (simp add: generate_powerbi_export_def Let_def)
  next
    case l: (Inr l)
    show ?thesis
    proof (cases "calculate_change_failure_rate (load_metrics raw)")
      case (Inl e)
      with assms(1) d l show ?thesis by (simp add: generate_powerbi_export_def Let_def)
    next
      case c: (Inr c)
      from assms(2) d l c have "d = EmptyDataFrame \<or> l = EmptyDataFrame \<or> c = EmptyDataFrame"
        by simp
      with assms(1) d l c show ?thesis
        by (cases d; cases l; cases c)
           (auto simp: generate_powerbi_export_def Let_def export_deployment_frequency_def
              export_lead_time_def export_change_failure_rate_def truth_def)
    qed
  qed
qed

text \<open>
  C2, what the code does. When no loaded record has the payload key of some metric, the
  \<open>calculate\_*\<close> function of that metric returns \<open>pd.DataFrame()\<close> without raising, as
  claimed. The exporter then tests \<open>if frames and not frames[...].empty\<close>, and the truth
  value of a \<open>DataFrame\<close> raises \<open>ValueError\<close>: the guard written to skip the empty metric
  ends the run instead. Every run over a non-empty set in which some metric has no records
  ends with an exception; it never reaches the summary.
\<close>

theorem export_stops_at_empty_metric:
  assumes "load_metrics raw \<noteq> []"
    and "(\<forall>m\<in>set (load_metrics raw). deployment_frequency m = None) \<or>
         (\<forall>m\<in>set (load_metrics raw). lead_time_for_changes m = None) \<or>
         (\<forall>m\<in>set (load_metrics raw). change_failure_rate m = None)"
  shows "((\<forall>m\<in>set (load_metrics raw). deployment_frequency m = None) \<longrightarrow>
            calculate_deployment_frequency (load_metrics raw) = Inr EmptyDataFrame) \<and>
         ((\<forall>m\<in>set (load_metrics raw). lead_time_for_changes m = None) \<longrightarrow>
            calculate_lead_time (load_metrics raw) = Inr EmptyDataFrame) \<and>
         ((\<forall>m\<in>set (load_metrics raw). change_failure_rate m = None) \<longrightarrow>
            calculate_change_failure_rate (load_metrics raw) = Inr EmptyDataFrame) \<and>
         (\<exists>files e. generate_powerbi_export raw stamp now = (files, Raised e))"
proof -
  have "calculate_deployment_frequency (load_metrics raw) = Inr EmptyDataFrame \<or>
        calculate_lead_time (load_metrics raw) = Inr EmptyDataFrame \<or>
        calculate_change_failure_rate (load_metrics raw) = Inr EmptyDataFrame"
    using assms(2) deployment_frequency_empty lead_time_empty change_failure_rate_empty
    by blast
  from empty_frame_stops_export[OF assms(1) this]
  show ?thesis
    using deployment_frequency_empty lead_time_empty change_failure_rate_empty by blast
qed

text \<open>A deployment and a change outcome, no lead-time record.\<close>

theorem export_stops_at_empty_metric_witness:
  "calculate_lead_time
     (load_metrics (Directory
        [(''deploy.json'', Some (deployment_event ''2024-01-01T09:30:00Z'' ''A'' [(''deployment_id'', ''d-1'')])),
         (''change.json'', Some (change_event ''2024-01-01T10:00:00Z'' ''A'' [(''status'', ''success'')]))]))
     = Inr EmptyDataFrame \<and>
   (\<exists>files e. generate_powerbi_export
      (Directory
        [(''deploy.json'', Some (deployment_event ''2024-01-01T09:30:00Z'' ''A'' [(''deployment_id'', ''d-1'')])),
         (''change.json'', Some (change_event ''2024-01-01T10:00:00Z'' ''A'' [(''status'', ''success'')]))])
      ''20240103'' ''2024-01-03T08:00:00'' = (files, Raised e))"
proof -
  let ?raw = "Directory
        [(''deploy.json'', Some (deployment_event ''2024-01-01T09:30:00Z'' ''A'' [(''deployment_id'', ''d-1'')])),
         (''change.json'', Some (change_event ''2024-01-01T10:00:00Z'' ''A'' [(''status'', ''success'')]))]"
  have h1: "load_metrics ?raw \<noteq> []"
    by (simp add: load_metrics_def endswith_def)
  have h2: "\<forall>m\<in>set (load_metrics ?raw). lead_time_for_changes m = None"
    by (simp add: load_metrics_def endswith_def deployment_event_def change_event_def event_def)
  from export_stops_at_empty_metric[OF h1 disjI2[OF disjI1[OF h2]], of "''20240103''" "''2024-01-03T08:00:00''"] h2
  show ?thesis by blast
qed

text \<open>
  The same run in full: the three deployment files are written, then the test of the
  lead-time result raises; neither the change-failure files nor the summary follow.
\<close>

theorem export_stops_at_empty_metric_example:
  "generate_powerbi_export
     (Directory [(''deploy.json'', Some (deployment_event ''2024-01-01T09:30:00Z'' ''A'' [(''deployment_id'', ''d-1'')])),
                 (''change.json'', Some (change_event ''2024-01-01T10:00:00Z'' ''A'' [(''status'', ''success'')]))])
     ''20240103'' ''2024-01-03T08:00:00''
   = ([(''metrics/powerbi/deployment_frequency_daily_20240103.csv'',
          DeploymentDaily [\<lparr>fr_bucket = (2024, 1, 1), fr_service = ''A'', deployment_count = 1\<rparr>]),
       (''metrics/powerbi/deployment_frequency_weekly_20240103.csv'',
          DeploymentPeriod [\<lparr>fr_bucket = ''2024-01-01/2024-01-07'', fr_service = ''A'', deployment_count = 1\<rparr>]),
       (''metrics/powerbi/deployment_frequency_monthly_20240103.csv'',
          DeploymentPeriod [\<lparr>fr_bucket = ''2024-01'', fr_service = ''A'', deployment_count = 1\<rparr>])],
      Raised (ValueError ''The truth value of a DataFrame is ambiguous''))"
  by code_simp

subsection \<open>Rounding to the nearest, ties to even\<close>

lemma floor_strict: "q \<noteq> of_int \<lfloor>q\<rfloor> \<Longrightarrow> of_int \<lfloor>q\<rfloor> < q"
  by (metis of_int_floor_le order_less_le)

lemma rint_cases:
  "rint q = \<lfloor>q\<rfloor> \<and> q - of_int \<lfloor>q\<rfloor> \<le> 1 / 2 \<or>
   rint q = \<lfloor>q\<rfloor> + 1 \<and> 1 / 2 \<le> q - of_int \<lfloor>q\<rfloor>"
proof -
  consider "q - of_int \<lfloor>q\<rfloor> < 1 / 2" | "1 / 2 < q - of_int \<lfloor>q\<rfloor>" | "q - of_int \<lfloor>q\<rfloor> = 1 / 2"
    by linarith
  then show ?thesis
  proof cases
    case 1
    then show ?thesis by (simp add: rint_def Let_def)
  next
    case 2
    then show ?thesis by (simp add: rint_def Let_def)
  next
    case 3
    then show ?thesis by (simp add: rint_def Let_def)
  qed
qed

lemma rint_near: "\<bar>of_int (rint q) - q\<bar> \<le> 1 / 2"
proof -
  have "of_int \<lfloor>q\<rfloor> \<le> q" "q < of_int \<lfloor>q\<rfloor> + 1" by linarith+
  with rint_cases[of q] show ?thesis by auto
qed

lemma rint_between:
  assumes "of_int a \<le> q" "q \<le> of_int b"
  shows "a \<le> rint q \<and> rint q \<le> b"
proof -
  have fl: "a \<le> \<lfloor>q\<rfloor>" "\<lfloor>q\<rfloor> \<le> b" using assms by (simp_all add: le_floor_iff floor_le_iff)
  from rint_cases[of q] show ?thesis
  proof
    assume "rint q = \<lfloor>q\<rfloor> \<and> q - of_int \<lfloor>q\<rfloor> \<le> 1 / 2"
    with fl show ?thesis by simp
  next
    assume 2: "rint q = \<lfloor>q\<rfloor> + 1 \<and> 1 / 2 \<le> q - of_int \<lfloor>q\<rfloor>"
    have "\<lfloor>q\<rfloor> < b"
    proof (rule ccontr)
      assume "\<not> \<lfloor>q\<rfloor> < b"
      with fl have "\<lfloor>q\<rfloor> = b" by simp
      with 2 assms show False by simp
    qed
    with 2 fl show ?thesis by simp
  qed
qed

lemma floor_complement:
  "\<lfloor>of_int n - q\<rfloor> = (if q = of_int \<lfloor>q\<rfloor> then n - \<lfloor>q\<rfloor> else n - \<lfloor>q\<rfloor> - 1)"
proof (cases "q = of_int \<lfloor>q\<rfloor>")
  case True
  then have "of_int n - q = of_int (n - \<lfloor>q\<rfloor>)" by simp
  then have "\<lfloor>of_int n - q\<rfloor> = n - \<lfloor>q\<rfloor>" by (metis floor_of_int)
  with True show ?thesis by simp
next
  case False
  have up: "q < of_int \<lfloor>q\<rfloor> + 1" by linarith
  from floor_strict[OF False] up have "\<lfloor>of_int n - q\<rfloor> = n - \<lfloor>q\<rfloor> - 1"
    by (intro floor_unique) simp_all
  with False show ?thesis by simp
qed

lemma rint_complement:
  assumes "even n"
  shows "rint (of_int n - q) = n - rint q"
proof (cases "q = of_int \<lfloor>q\<rfloor>")
  case True
  then have "q - of_int \<lfloor>q\<rfloor> = 0" by simp
  then show ?thesis
    by (simp add: rint_def Let_def floor_complement True[symmetric])
next
  case False
  have up: "q < of_int \<lfloor>q\<rfloor> + 1" by linarith
  note lt = floor_strict[OF False]
  have fl: "\<lfloor>of_int n - q\<rfloor> = n - \<lfloor>q\<rfloor> - 1" using False by (simp add: floor_complement)
  have ev: "even (n - \<lfloor>q\<rfloor> - 1) \<longleftrightarrow> odd \<lfloor>q\<rfloor>" using assms by simp
  consider "q - of_int \<lfloor>q\<rfloor> < 1 / 2" | "1 / 2 < q - of_int \<lfloor>q\<rfloor>" | "q - of_int \<lfloor>q\<rfloor> = 1 / 2"
    by linarith
  then show ?thesis
  proof cases
    case 1
    then have "\<not> (of_int n - q - of_int (n - \<lfloor>q\<rfloor> - 1) < 1 / 2)"
      "1 / 2 < of_int n - q - of_int (n - \<lfloor>q\<rfloor> - 1)" by simp_all
    with 1 show ?thesis unfolding rint_def Let_def fl by simp
  next
    case 2
    then have "of_int n - q - of_int (n - \<lfloor>q\<rfloor> - 1) < 1 / 2" by simp
    moreover from 2 have "\<not> q - of_int \<lfloor>q\<rfloor> < 1 / 2" by simp
    ultimately show ?thesis using 2 unfolding rint_def Let_def fl by simp
  next
    case 3
    then have "of_int n - q - of_int (n - \<lfloor>q\<rfloor> - 1) = 1 / 2" by simp
    with 3 ev show ?thesis unfolding rint_def Let_def fl by simp
  qed
qed

subsection \<open>Rates\<close>

lemma percentage_bounds:
  assumes "0 < t" "f \<le> t"
  shows "0 \<le> percentage f t" "percentage f t \<le> 100"
proof -
  show "0 \<le> percentage f t" by (simp add: percentage_def)
  have h: "(of_nat f :: rat) / of_nat t \<le> 1" using assms by simp
  have "of_nat f / of_nat t * (100::rat) \<le> 1 * 100"
    by (rule mult_right_mono[OF h]) simp
  then show "percentage f t \<le> 100" unfolding percentage_def by simp
qed

lemma rate_of_round:
  assumes "0 < t" "f \<le> t"
  shows "rate_of f t (round_to 2 (times (truediv f t) 100))"
proof -
  let ?p = "percentage f t"
  let ?q = "of_int (rint (?p * 100)) / 100 :: rat"
  have eq: "round_to 2 (times (truediv f t) 100) = Fin ?q"
    using assms by (simp add: round_to_def times_def truediv_def percentage_def)
  from percentage_bounds[OF assms] have "of_int 0 \<le> ?p * 100" "?p * 100 \<le> of_int 10000"
    by simp_all
  from rint_between[OF this] have b: "0 \<le> rint (?p * 100)" "rint (?p * 100) \<le> 10000" by simp_all
  from b(1) have q0: "(0::rat) \<le> of_int (rint (?p * 100))" by simp
  from b(2) have "(of_int (rint (?p * 100)) :: rat) \<le> of_int 10000"
    by (simp only: of_int_le_iff)
  then have q1: "(of_int (rint (?p * 100)) :: rat) \<le> 10000" by simp
  from q0 q1 have q: "0 \<le> ?q" "?q \<le> 100" by simp_all
  have "\<bar>of_int (rint (?p * 100)) - ?p * 100\<bar> \<le> 1 / 2" by (rule rint_near)
  then have "\<bar>?q * 100 - ?p * 100\<bar> \<le> 1 / 2" by simp
  then have "\<bar>?q - ?p\<bar> * 100 \<le> 1 / 2"
    by (simp only: left_diff_distrib[symmetric] abs_mult)
  then have "\<bar>?q - ?p\<bar> \<le> 1 / 200" by simp
  with q assms(1) eq show ?thesis by (simp add: rate_of_def)
qed

lemma truediv_zero: "truediv 0 0 = NaN"
  by (simp add: truediv_def)

lemma nan_rate: "round_to 2 (times NaN 100) = NaN"
  by (simp add: times_def round_to_def)

lemma rate_of_zero: "rate_of 0 0 (round_to 2 (times (truediv 0 0) 100))"
  by (simp only: truediv_zero nan_rate) (simp add: rate_of_def)

lemma rate_of_row:
  assumes "t = s + f"
  shows "rate_of f t (round_to 2 (times (truediv f t) 100))"
    and "rate_of s t (round_to 2 (times (truediv s t) 100))"
proof -
  show "rate_of f t (round_to 2 (times (truediv f t) 100))"
  proof (cases "t = 0")
    case True
    with assms have "f = 0" by simp
    with True show ?thesis by (simp only: rate_of_zero)
  next
    case False
    with assms have "0 < t" "f \<le> t" by simp_all
    then show ?thesis by (rule rate_of_round)
  qed
  show "rate_of s t (round_to 2 (times (truediv s t) 100))"
  proof (cases "t = 0")
    case True
    with assms have "s = 0" by simp
    with True show ?thesis by (simp only: rate_of_zero)
  next
    case False
    with assms have "0 < t" "s \<le> t" by simp_all
    then show ?thesis by (rule rate_of_round)
  qed
qed

lemma rates_add_up:
  assumes "t = s + f" "0 < t"
  shows "add (round_to 2 (times (truediv s t) 100)) (round_to 2 (times (truediv f t) 100)) = Fin 100"
proof -
  have tnz: "(of_nat t :: rat) \<noteq> 0" using assms(2) by simp
  have "percentage s t + percentage f t = of_nat (s + f) / of_nat t * 100"
    by (simp add: percentage_def add_divide_distrib distrib_right)
  also have "\<dots> = of_nat t / of_nat t * 100" by (simp only: assms(1))
  also have "\<dots> = 100" using tnz by simp
  finally have "percentage s t * 100 = of_int 10000 - percentage f t * 100" by simp
  moreover have "rint (of_int 10000 - percentage f t * 100) = 10000 - rint (percentage f t * 100)"
    by (rule rint_complement) simp
  ultimately have "rint (percentage s t * 100) = 10000 - rint (percentage f t * 100)"
    by (simp only:)
  then have "(of_int (rint (percentage s t * 100)) :: rat) + of_int (rint (percentage f t * 100)) = 10000"
    by simp
  then have "(of_int (rint (percentage s t * 100)) :: rat) / 100 + of_int (rint (percentage f t * 100)) / 100 = 100"
    by (simp only: add_divide_distrib[symmetric])
  then show ?thesis
    using assms(2) by (simp add: add_def round_to_def times_def truediv_def percentage_def)
qed

lemma rates_nan:
  "add (round_to 2 (times (truediv 0 0) 100)) (round_to 2 (times (truediv 0 0) 100)) = NaN"
  by (simp only: truediv_zero nan_rate) (simp add: add_def)

subsection \<open>Change failure rate: the rows\<close>

lemma set_group_keys [simp]: "set (group_keys key df) = key ` set df"
  by (simp add: group_keys_def)

lemma distinct_group_keys [simp]: "distinct (group_keys key df)"
  by (simp add: group_keys_def)

lemma cell_absent: "s \<notin> set (group_keys status df) \<Longrightarrow> cell bucket df k s = 0"
  by (auto simp: cell_def filter_empty_conv)

lemma unstacked_row_fields:
  "cfr_bucket (unstacked_row bucket df columns derived k) = fst k"
  "cfr_service (unstacked_row bucket df columns derived k) = snd k"
  "success (unstacked_row bucket df (group_keys status df) derived k) = cell bucket df k ''success''"
  "failure (unstacked_row bucket df (group_keys status df) derived k) = cell bucket df k ''failure''"
  "total_changes (unstacked_row bucket df columns derived k) =
     success (unstacked_row bucket df columns derived k) +
     failure (unstacked_row bucket df columns derived k)"
  "failure_rate (unstacked_row bucket df columns derived k) =
     round_to 2 (times (truediv (failure (unstacked_row bucket df columns derived k))
                                (total_changes (unstacked_row bucket df columns derived k))) 100)"
  using cell_absent[of "''success''" df bucket k] cell_absent[of "''failure''" df bucket k]
  by (simp_all add: unstacked_row_def Let_def del: set_group_keys)

lemma with_success_rate_fields:
  "cfr_bucket (with_success_rate r) = cfr_bucket r"
  "cfr_service (with_success_rate r) = cfr_service r"
  "success (with_success_rate r) = success r"
  "failure (with_success_rate r) = failure r"
  "total_changes (with_success_rate r) = total_changes r"
  "failure_rate (with_success_rate r) = failure_rate r"
  "success_rate (with_success_rate r) =
     round_to 2 (times (truediv (success r) (total_changes r)) 100)"
  by (simp_all add: with_success_rate_def cfr_row.defs cfr_daily_row.defs)

lemma stringify_fields:
  "cfr_service (stringify f r) = cfr_service r"
  "success (stringify f r) = success r"
  "failure (stringify f r) = failure r"
  "total_changes (stringify f r) = total_changes r"
  "failure_rate (stringify f r) = failure_rate r"
  by (simp_all add: stringify_def)

lemma change_frames_shape:
  assumes "calculate_change_failure_rate ms = Inr (Frames t)"
  shows "cfr_daily t =
           map (\<lambda>k. with_success_rate
                  (unstacked_row chg_date (cfr_raw t) (group_keys status (cfr_raw t))
                     [''total_changes'', ''failure_rate'', ''success_rate''] k))
             (group_keys (\<lambda>r. (chg_date r, chg_service r)) (cfr_raw t))"
    and "cfr_weekly t =
           map (stringify week_str)
             (map (unstacked_row chg_week (cfr_raw t) (group_keys status (cfr_raw t))
                     [''total_changes'', ''failure_rate''])
                (group_keys (\<lambda>r. (chg_week r, chg_service r)) (cfr_raw t)))"
  using assms
  by (auto simp: calculate_change_failure_rate_def bind_Inr_iff Let_def reset_index_def
      split: if_splits)

lemma unstacked_row_rates:
  "total_changes (unstacked_row bucket df columns derived k) =
     success (unstacked_row bucket df columns derived k) +
     failure (unstacked_row bucket df columns derived k) \<and>
   rate_of (failure (unstacked_row bucket df columns derived k))
     (total_changes (unstacked_row bucket df columns derived k))
     (failure_rate (unstacked_row bucket df columns derived k))"
proof -
  let ?r = "unstacked_row bucket df columns derived k"
  have t: "total_changes ?r = success ?r + failure ?r"
    by (rule unstacked_row_fields(5))
  have fr: "failure_rate ?r = round_to 2 (times (truediv (failure ?r) (total_changes ?r)) 100)"
    by (rule unstacked_row_fields(6))
  have "rate_of (failure ?r) (total_changes ?r) (failure_rate ?r)"
    unfolding fr by (rule rate_of_row(1)[OF t])
  with t show ?thesis by (rule conjI)
qed


lemma has_framesE: "has_frames res \<Longrightarrow> \<exists>t. res = Inr (Frames t)"
  by (auto simp: has_frames_def split: sum.splits frames.splits)






subsection \<open>Deployment frequency: daily and weekly counts\<close>

lemma indicator_sum:
  "distinct ks \<Longrightarrow> sum_list (map (\<lambda>k. if a = k then 1 else 0) ks) = (if a \<in> set ks then 1 else (0::nat))"
  by (induction ks) auto

lemma count_by_coarser:
  assumes "distinct ks" "fine ` set df \<subseteq> set ks"
  shows "length (filter (\<lambda>r. g (fine r) = c) df) =
         sum_list (map (\<lambda>k. length (filter (\<lambda>r. fine r = k) df)) (filter (\<lambda>k. g k = c) ks))"
  using assms(2)
proof (induction df)
  case Nil
  then show ?case by simp
next
  case (Cons r df)
  have d: "distinct (filter (\<lambda>k. g k = c) ks)" using assms(1) by simp
  have "sum_list (map (\<lambda>k. length (filter (\<lambda>x. fine x = k) (r # df))) (filter (\<lambda>k. g k = c) ks))
      = sum_list (map (\<lambda>k. (if fine r = k then 1 else 0) + length (filter (\<lambda>x. fine x = k) df))
          (filter (\<lambda>k. g k = c) ks))"
    by (rule arg_cong[where f = sum_list]) (rule map_cong, simp_all)
  also have "\<dots> = sum_list (map (\<lambda>k. if fine r = k then 1 else 0) (filter (\<lambda>k. g k = c) ks))
      + sum_list (map (\<lambda>k. length (filter (\<lambda>x. fine x = k) df)) (filter (\<lambda>k. g k = c) ks))"
    by (rule sum_list_addf)
  finally have step: "sum_list (map (\<lambda>k. length (filter (\<lambda>x. fine x = k) (r # df))) (filter (\<lambda>k. g k = c) ks))
      = sum_list (map (\<lambda>k. if fine r = k then 1 else 0) (filter (\<lambda>k. g k = c) ks))
      + sum_list (map (\<lambda>k. length (filter (\<lambda>x. fine x = k) df)) (filter (\<lambda>k. g k = c) ks))" .
  have "sum_list (map (\<lambda>k. if fine r = k then 1 else 0) (filter (\<lambda>k. g k = c) ks))
      = (if fine r \<in> set (filter (\<lambda>k. g k = c) ks) then 1 else (0::nat))"
    by (rule indicator_sum[OF d])
  also have "\<dots> = (if g (fine r) = c then 1 else 0)"
    using Cons.prems by simp
  finally have ind: "sum_list (map (\<lambda>k. if fine r = k then 1 else 0) (filter (\<lambda>k. g k = c) ks))
      = (if g (fine r) = c then 1 else (0::nat))" .
  from Cons have IH: "length (filter (\<lambda>r. g (fine r) = c) df) =
      sum_list (map (\<lambda>k. length (filter (\<lambda>r. fine r = k) df)) (filter (\<lambda>k. g k = c) ks))"
    by simp
  show ?case unfolding step ind IH[symmetric] by simp
qed

lemma mapM_set: "mapM f xs = Inr ys \<Longrightarrow> y \<in> set ys \<Longrightarrow> \<exists>x\<in>set xs. f x = Inr y"
proof (induction xs arbitrary: ys)
  case Nil
  then show ?case by simp
next
  case (Cons x xs)
  from Cons.prems(1) obtain z zs where z: "f x = Inr z" "mapM f xs = Inr zs" "ys = z # zs"
    by (auto simp: bind_Inr_iff)
  with Cons.prems(2) Cons.IH[OF z(2)] show ?case by auto
qed

lemma mapM_length: "mapM f xs = Inr ys \<Longrightarrow> length ys = length xs"
  by (drule mapM_Inr) (simp add: list_all2_lengthD)

lemma deployment_dated_fields:
  assumes "deployment_dated x = Inr y"
  shows "dep_week y = to_period_W (dep_date y)" "dep_month y = to_period_M (dep_date y)"
    "dep_service y = dep_service x" "deployment_id y = deployment_id x"
  using assms by (auto simp: deployment_dated_def bind_Inr_iff)

lemma deployment_frames_shape:
  assumes "calculate_deployment_frequency ms = Inr (Frames t)"
  shows "dep_daily t = size_by dep_date (dep_raw t)"
    and "dep_weekly t = map (relabel week_str) (size_by dep_week (dep_raw t))"
    and "dep_monthly t = map (relabel month_str) (size_by dep_month (dep_raw t))"
    and "\<forall>r\<in>set (dep_raw t). dep_week r = to_period_W (dep_date r)"
    and "dep_raw t \<noteq> []"
proof -
  from assms obtain deployments df where
    e: "extract_rows deployment_frequency deployment_row ms = Inr deployments" "deployments \<noteq> []"
    and m: "mapM deployment_dated deployments = Inr df"
    and t: "t = \<lparr>dep_daily = size_by dep_date df,
                  dep_weekly = map (relabel week_str) (size_by dep_week df),
                  dep_monthly = map (relabel month_str) (size_by dep_month df),
                  dep_raw = df\<rparr>"
    by (auto simp: calculate_deployment_frequency_def bind_Inr_iff split: if_splits)
  show "dep_daily t = size_by dep_date (dep_raw t)"
    and "dep_weekly t = map (relabel week_str) (size_by dep_week (dep_raw t))"
    and "dep_monthly t = map (relabel month_str) (size_by dep_month (dep_raw t))"
    by (simp_all add: t)
  show "\<forall>r\<in>set (dep_raw t). dep_week r = to_period_W (dep_date r)"
    using mapM_set[OF m] deployment_dated_fields(1) by (auto simp: t)
  show "dep_raw t \<noteq> []"
    using mapM_length[OF m] e(2) by (auto simp: t)
qed

lemma size_by_count:
  "map deployment_count (filter (\<lambda>d. P (fr_bucket d, fr_service d)) (size_by bucket df)) =
   map (\<lambda>k. length (filter (\<lambda>r. (bucket r, dep_service r) = k) df))
     (filter P (group_keys (\<lambda>r. (bucket r, dep_service r)) df))"
  by (simp add: size_by_def group_rows_def filter_map comp_def)

lemma week_sum:
  assumes weeks: "\<forall>r\<in>set df. dep_week r = to_period_W (dep_date r)"
  shows "sum_list (map deployment_count (days_of_week w s (size_by dep_date df))) =
         length (filter (\<lambda>r. (dep_week r, dep_service r) = (w, s)) df)"
proof -
  let ?fine = "\<lambda>r. (dep_date r, dep_service r)"
  let ?g = "\<lambda>k. (to_period_W (fst k), snd k)"
  have "filter (\<lambda>r. (dep_week r, dep_service r) = (w, s)) df = filter (\<lambda>r. ?g (?fine r) = (w, s)) df"
    using weeks by (intro filter_cong) auto
  then have "length (filter (\<lambda>r. (dep_week r, dep_service r) = (w, s)) df) =
             length (filter (\<lambda>r. ?g (?fine r) = (w, s)) df)"
    by simp
  also have "\<dots> = sum_list (map (\<lambda>k. length (filter (\<lambda>r. ?fine r = k) df))
                        (filter (\<lambda>k. ?g k = (w, s)) (group_keys ?fine df)))"
    by (rule count_by_coarser) simp_all
  also have "\<dots> = sum_list (map deployment_count
                        (filter (\<lambda>d. ?g (fr_bucket d, fr_service d) = (w, s)) (size_by dep_date df)))"
    by (simp only: size_by_count[where P = "\<lambda>k. ?g k = (w, s)"])
  also have "filter (\<lambda>d. ?g (fr_bucket d, fr_service d) = (w, s)) (size_by dep_date df)
             = days_of_week w s (size_by dep_date df)"
    by (simp add: days_of_week_def)
  finally show ?thesis by simp
qed

lemma size_by_row:
  assumes "w \<in> set (size_by bucket df)"
  shows "deployment_count w =
         length (filter (\<lambda>r. (bucket r, dep_service r) = (fr_bucket w, fr_service w)) df)"
proof -
  from assms obtain k where "w = \<lparr>fr_bucket = fst k, fr_service = snd k,
      deployment_count = length (group_rows (\<lambda>r. (bucket r, dep_service r)) df k)\<rparr>"
    unfolding size_by_def set_map by (rule imageE)
  then show ?thesis by (simp add: group_rows_def)
qed

text \<open>
  C6. The three deployment aggregates are each a grouping of the same canonical table
  \<open>dep_raw\<close>: by date, by weekly period, by month. Every row of the weekly table is the
  row of one (weekly period, service) bucket with the period printed as its label, and its
  \<open>deployment_count\<close> is the sum of the \<open>deployment_count\<close> of the daily rows of that
  service whose date falls in that period. For any period and service, in the table or
  not, that sum is the number of deployments of the service in the period.
\<close>

theorem weekly_count_is_sum_of_daily_counts:
  assumes "calculate_deployment_frequency ms = Inr (Frames t)"
  shows "dep_daily t = size_by dep_date (dep_raw t) \<and>
         dep_monthly t = map (relabel month_str) (size_by dep_month (dep_raw t)) \<and>
         list_all2
           (\<lambda>labelled w. labelled = relabel week_str w \<and>
              deployment_count labelled =
                sum_list (map deployment_count
                  (days_of_week (fr_bucket w) (fr_service w) (dep_daily t))))
           (dep_weekly t) (size_by dep_week (dep_raw t)) \<and>
         (\<forall>w s. sum_list (map deployment_count (days_of_week w s (dep_daily t))) =
                  length (filter (\<lambda>r. (dep_week r, dep_service r) = (w, s)) (dep_raw t)))"
proof -
  note shape = deployment_frames_shape[OF assms]
  have sums: "sum_list (map deployment_count (days_of_week w s (dep_daily t))) =
              length (filter (\<lambda>r. (dep_week r, dep_service r) = (w, s)) (dep_raw t))" for w s
    unfolding shape(1) by (rule week_sum[OF shape(4)])
  have rows: "\<forall>w\<in>set (size_by dep_week (dep_raw t)).
          relabel week_str w = relabel week_str w \<and>
          deployment_count (relabel week_str w) =
            sum_list (map deployment_count
              (days_of_week (fr_bucket w) (fr_service w) (dep_daily t)))"
    by (simp add: sums size_by_row relabel_def)
  have "list_all2
           (\<lambda>labelled w. labelled = relabel week_str w \<and>
              deployment_count labelled =
                sum_list (map deployment_count
                  (days_of_week (fr_bucket w) (fr_service w) (dep_daily t))))
           (dep_weekly t) (size_by dep_week (dep_raw t))"
    unfolding shape(2) list_all2_map1 list_all2_same by (rule rows)
  with shape(1,3) sums show ?thesis by blast
qed

lemma deployment_tablesE:
  "deployment_tables res \<noteq> None \<Longrightarrow> \<exists>t. res = Inr (Frames t) \<and> deployment_tables res = Some t"
  by (auto simp: deployment_tables_def split: sum.splits frames.splits)

text \<open>
  Five deployments: three of service \<open>A\<close> on two days of the week of 2024-01-01, one of
  \<open>B\<close> on the Sunday of that week, one of \<open>A\<close> on the next Monday.
\<close>

theorem weekly_count_is_sum_of_daily_counts_witness:
  "\<exists>t. calculate_deployment_frequency sample_deployments = Inr (Frames t) \<and>
       map deployment_count (dep_daily t) = [2, 1, 1, 1] \<and>
       map fr_bucket (dep_weekly t) =
         [''2024-01-01/2024-01-07'', ''2024-01-01/2024-01-07'', ''2024-01-08/2024-01-14''] \<and>
       map fr_service (dep_weekly t) = [''A'', ''B'', ''A''] \<and>
       map deployment_count (dep_weekly t) = [3, 1, 1] \<and>
       list_all2
         (\<lambda>labelled w. labelled = relabel week_str w \<and>
            deployment_count labelled =
              sum_list (map deployment_count
                (days_of_week (fr_bucket w) (fr_service w) (dep_daily t))))
         (dep_weekly t) (size_by dep_week (dep_raw t))"
proof -
  let ?res = "calculate_deployment_frequency sample_deployments"
  have "case deployment_tables ?res of
          None \<Rightarrow> False
        | Some t \<Rightarrow>
            map deployment_count (dep_daily t) = [2, 1, 1, 1] \<and>
            map fr_bucket (dep_weekly t) =
              [''2024-01-01/2024-01-07'', ''2024-01-01/2024-01-07'', ''2024-01-08/2024-01-14''] \<and>
            map fr_service (dep_weekly t) = [''A'', ''B'', ''A''] \<and>
            map deployment_count (dep_weekly t) = [3, 1, 1]"
    by code_simp
  then obtain t where s: "deployment_tables ?res = Some t"
    and v: "map deployment_count (dep_daily t) = [2, 1, 1, 1]"
      "map fr_bucket (dep_weekly t) =
         [''2024-01-01/2024-01-07'', ''2024-01-01/2024-01-07'', ''2024-01-08/2024-01-14'']"
      "map fr_service (dep_weekly t) = [''A'', ''B'', ''A'']"
      "map deployment_count (dep_weekly t) = [3, 1, 1]"
    by (cases "deployment_tables ?res") simp_all
  from s have t: "?res = Inr (Frames t)"
    using deployment_tablesE[of ?res] by simp
  note l = weekly_count_is_sum_of_daily_counts[OF t, THEN conjunct2, THEN conjunct2, THEN conjunct1]
  show ?thesis by (intro exI[of _ t] conjI t v l)
qed

subsection \<open>Lead time: negative durations\<close>

lemma extract_rows_set:
  "extract_rows key row ms = Inr rs \<Longrightarrow> m \<in> set ms \<Longrightarrow> key m = Some p \<Longrightarrow>
   \<exists>r\<in>set rs. row m p = Inr r"
proof (induction ms arbitrary: rs)
  case Nil
  then show ?case by simp
next
  case (Cons a ms)
  show ?case
  proof (cases "key a")
    case None
    with Cons show ?thesis by auto
  next
    case (Some q)
    with Cons.prems(1) obtain r rs' where r: "row a q = Inr r" "extract_rows key row ms = Inr rs'" "rs = r # rs'"
      by (auto simp: bind_Inr_iff)
    show ?thesis
    proof (cases "m = a")
      case True
      with Some Cons.prems(3) r show ?thesis by simp
    next
      case False
      with Cons.prems(2) have "m \<in> set ms" by simp
      from Cons.IH[OF r(2) this Cons.prems(3)] r(3) show ?thesis by auto
    qed
  qed
qed

lemma mapM_image:
  "mapM f xs = Inr ys \<Longrightarrow> x \<in> set xs \<Longrightarrow> \<exists>y\<in>set ys. f x = Inr y"
proof (induction xs arbitrary: ys)
  case Nil
  then show ?case by simp
next
  case (Cons a xs)
  from Cons.prems(1) obtain z zs where z: "f a = Inr z" "mapM f xs = Inr zs" "ys = z # zs"
    by (auto simp: bind_Inr_iff)
  with Cons.prems(2) Cons.IH[OF z(2)] show ?case by auto
qed

lemma total_seconds_between_Inr:
  assumes "total_seconds_between d c = Inr secs"
  shows "comparable d c" "secs = of_int (instant d - instant c) / 1000000"
  using assms
  by (auto simp: total_seconds_between_def comparable_def instant_def split: option.splits)

lemma lead_time_row_Inr:
  assumes "lead_time_row m p = Inr r"
    and "map_of p ''commit_timestamp'' = Some cs" "parse cs = Inr commit_time"
    and "map_of p ''deploy_timestamp'' = Some ds" "parse ds = Inr deploy_time"
  shows "commit_timestamp r = commit_time" "deploy_timestamp r = deploy_time"
    "timestamp m = Some (lt_timestamp r)" "service m = Some (lt_service r)"
    "lead_time_hours r = of_int (instant deploy_time - instant commit_time) / 1000000 / 3600"
    "lead_time_seconds r = of_int (instant deploy_time - instant commit_time) / 1000000"
    "comparable deploy_time commit_time"
proof -
  from assms obtain secs ts sv where
    s: "total_seconds_between deploy_time commit_time = Inr secs"
    and ts: "timestamp m = Some ts" and sv: "service m = Some sv"
    and r: "r = \<lparr>lt_timestamp = ts, lt_service = sv, lt_commit_sha = get p ''commit_sha'' [],
          commit_timestamp = commit_time, deploy_timestamp = deploy_time,
          lead_time_seconds = secs, lead_time_minutes = secs / 60,
          lead_time_hours = secs / 3600\<rparr>"
    by (auto simp: lead_time_row_def getitem_def field_def bind_Inr_iff split: option.splits)
  note b = total_seconds_between_Inr[OF s]
  show "commit_timestamp r = commit_time" "deploy_timestamp r = deploy_time"
    "timestamp m = Some (lt_timestamp r)" "service m = Some (lt_service r)"
    "lead_time_hours r = of_int (instant deploy_time - instant commit_time) / 1000000 / 3600"
    "lead_time_seconds r = of_int (instant deploy_time - instant commit_time) / 1000000"
    "comparable deploy_time commit_time"
    using b ts sv by (simp_all add: r)
qed

lemma lead_time_dated_Inr:
  assumes "lead_time_dated r = Inr y"
  shows "lt_timestamp y = lt_timestamp r" "lt_service y = lt_service r"
    "commit_timestamp y = commit_timestamp r" "deploy_timestamp y = deploy_timestamp r"
    "lead_time_hours y = lead_time_hours r" "lead_time_seconds y = lead_time_seconds r"
  using assms by (auto simp: lead_time_dated_def bind_Inr_iff)

lemma min_of_Min: "xs \<noteq> [] \<Longrightarrow> min_of xs = Min (set xs)"
  by (cases xs) (simp_all add: min_of_def Min.set_eq_fold[symmetric])

lemma max_of_Max: "xs \<noteq> [] \<Longrightarrow> max_of xs = Max (set xs)"
  by (cases xs) (simp_all add: max_of_def Max.set_eq_fold[symmetric])

lemma min_of_le: "x \<in> set xs \<Longrightarrow> min_of xs \<le> x"
  by (cases "xs = []") (simp_all add: min_of_Min)

lemma max_of_ge: "x \<in> set xs \<Longrightarrow> x \<le> max_of xs"
  by (cases "xs = []") (simp_all add: max_of_Max)

lemma lead_time_frames_shape:
  assumes "calculate_lead_time ms = Inr (Frames t)"
  shows "daily_average t =
           map (lead_time_agg (lt_raw t)) (group_keys (\<lambda>r. (lt_date r, lt_service r)) (lt_raw t))"
    and "\<exists>rows. extract_rows lead_time_for_changes lead_time_row ms = Inr rows \<and>
                mapM lead_time_dated rows = Inr (lt_raw t)"
  using assms
  by (auto simp: calculate_lead_time_def bind_Inr_iff split: if_splits)

lemma lead_time_agg_fields:
  "ld_date (lead_time_agg df (d, sv)) = d"
  "ld_service (lead_time_agg df (d, sv)) = sv"
  "avg_lead_time_hours (lead_time_agg df (d, sv)) = mean (bucket_hours df d sv)"
  "median_lead_time_hours (lead_time_agg df (d, sv)) = median (bucket_hours df d sv)"
  "min_lead_time_hours (lead_time_agg df (d, sv)) = min_of (bucket_hours df d sv)"
  "max_lead_time_hours (lead_time_agg df (d, sv)) = max_of (bucket_hours df d sv)"
  by (simp_all add: lead_time_agg_def bucket_hours_def group_rows_def Let_def)

text \<open>
  C7. A lead-time record whose deployment instant is earlier than its commit instant is
  not rejected: it yields a row of the raw table with the negative duration as computed,
  and the row of the daily table for its date and service is computed from the lead times
  of that bucket with the negative value among them: the mean, the median, the minimum
  and the maximum are those of the bucket, so the minimum is at most the negative value.
\<close>

theorem negative_lead_time_kept:
  assumes "calculate_lead_time ms = Inr (Frames t)"
    and "m \<in> set ms" "lead_time_for_changes m = Some p"
    and "map_of p ''commit_timestamp'' = Some cs" "parse cs = Inr commit_time"
    and "map_of p ''deploy_timestamp'' = Some ds" "parse ds = Inr deploy_time"
    and "instant deploy_time < instant commit_time"
  shows "\<exists>r\<in>set (lt_raw t). \<exists>row\<in>set (daily_average t).
           timestamp m = Some (lt_timestamp r) \<and> service m = Some (lt_service r) \<and>
           commit_timestamp r = commit_time \<and> deploy_timestamp r = deploy_time \<and>
           lead_time_hours r = of_int (instant deploy_time - instant commit_time) / 1000000 / 3600 \<and>
           lead_time_hours r < 0 \<and>
           ld_date row = lt_date r \<and> ld_service row = lt_service r \<and>
           lead_time_hours r \<in> set (bucket_hours (lt_raw t) (lt_date r) (lt_service r)) \<and>
           avg_lead_time_hours row = mean (bucket_hours (lt_raw t) (lt_date r) (lt_service r)) \<and>
           median_lead_time_hours row = median (bucket_hours (lt_raw t) (lt_date r) (lt_service r)) \<and>
           min_lead_time_hours row = min_of (bucket_hours (lt_raw t) (lt_date r) (lt_service r)) \<and>
           max_lead_time_hours row = max_of (bucket_hours (lt_raw t) (lt_date r) (lt_service r)) \<and>
           min_lead_time_hours row \<le> lead_time_hours r \<and>
           lead_time_hours r \<le> max_lead_time_hours row"
proof -
  from lead_time_frames_shape(2)[OF assms(1)] obtain rows where
    e: "extract_rows lead_time_for_changes lead_time_row ms = Inr rows"
    and d: "mapM lead_time_dated rows = Inr (lt_raw t)" by blast
  from extract_rows_set[OF e assms(2,3)] obtain x where
    x: "x \<in> set rows" "lead_time_row m p = Inr x" by blast
  from mapM_image[OF d x(1)] obtain r where
    r: "r \<in> set (lt_raw t)" "lead_time_dated x = Inr r" by blast
  note xf = lead_time_row_Inr[OF x(2) assms(4-7)]
  note rf = lead_time_dated_Inr[OF r(2)]
  let ?row = "lead_time_agg (lt_raw t) (lt_date r, lt_service r)"
  let ?hours = "bucket_hours (lt_raw t) (lt_date r) (lt_service r)"
  have row: "?row \<in> set (daily_average t)"
    unfolding lead_time_frames_shape(1)[OF assms(1)] using r(1) by (auto simp: image_iff)
  have mem: "lead_time_hours r \<in> set ?hours"
    using r(1) by (auto simp: bucket_hours_def)
  have hours: "lead_time_hours r = of_int (instant deploy_time - instant commit_time) / 1000000 / 3600"
    by (simp add: rf xf)
  have "(of_int (instant deploy_time - instant commit_time) :: rat) < 0"
    using assms(8) by simp
  then have neg: "lead_time_hours r < 0"
    unfolding hours by (simp add: divide_neg_pos)
  from r(1) row mem hours neg min_of_le[OF mem] max_of_ge[OF mem]
  show ?thesis
    by (intro bexI[of _ r] bexI[of _ ?row])
       (simp_all add: rf xf lead_time_agg_fields)
qed

lemma lead_time_tablesE:
  "lead_time_tables res = Some t \<Longrightarrow> res = Inr (Frames t)"
  by (auto simp: lead_time_tables_def split: sum.splits frames.splits)

theorem negative_lead_time_kept_witness:
  "\<exists>t. calculate_lead_time sample_lead_times = Inr (Frames t) \<and>
       map lead_time_hours (lt_raw t) = [2, - 1] \<and>
       map avg_lead_time_hours (daily_average t) = [1 / 2] \<and>
       map median_lead_time_hours (daily_average t) = [1 / 2] \<and>
       map min_lead_time_hours (daily_average t) = [- 1] \<and>
       map max_lead_time_hours (daily_average t) = [2] \<and>
       (\<exists>r\<in>set (lt_raw t). \<exists>row\<in>set (daily_average t).
           timestamp skewed_event = Some (lt_timestamp r) \<and>
           deploy_timestamp r = stamped 1 11 \<and> commit_timestamp r = stamped 1 12 \<and>
           lead_time_hours r < 0 \<and>
           ld_date row = lt_date r \<and> ld_service row = lt_service r \<and>
           lead_time_hours r \<in> set (bucket_hours (lt_raw t) (lt_date r) (lt_service r)) \<and>
           min_lead_time_hours row = min_of (bucket_hours (lt_raw t) (lt_date r) (lt_service r)) \<and>
           min_lead_time_hours row \<le> lead_time_hours r)"
proof -
  let ?res = "calculate_lead_time sample_lead_times"
  have "case lead_time_tables ?res of
          None \<Rightarrow> False
        | Some t \<Rightarrow>
            map lead_time_hours (lt_raw t) = [2, - 1] \<and>
            map avg_lead_time_hours (daily_average t) = [1 / 2] \<and>
            map median_lead_time_hours (daily_average t) = [1 / 2] \<and>
            map min_lead_time_hours (daily_average t) = [- 1] \<and>
            map max_lead_time_hours (daily_average t) = [2]"
    by code_simp
  then obtain t where s: "lead_time_tables ?res = Some t"
    and v: "map lead_time_hours (lt_raw t) = [2, - 1]"
      "map avg_lead_time_hours (daily_average t) = [1 / 2]"
      "map median_lead_time_hours (daily_average t) = [1 / 2]"
      "map min_lead_time_hours (daily_average t) = [- 1]"
      "map max_lead_time_hours (daily_average t) = [2]"
    by (cases "lead_time_tables ?res") simp_all
  note t = lead_time_tablesE[OF s]
  have h1: "skewed_event \<in> set sample_lead_times"
    by (simp add: sample_lead_times_def)
  have h2: "lead_time_for_changes skewed_event =
      Some [(''commit_timestamp'', ''2024-01-01T12:00:00Z''),
            (''deploy_timestamp'', ''2024-01-01T11:00:00Z'')]"
    by (simp add: skewed_event_def lead_time_event_def event_def)
  have h3: "map_of [(''commit_timestamp'', ''2024-01-01T12:00:00Z''),
            (''deploy_timestamp'', ''2024-01-01T11:00:00Z'')] ''commit_timestamp''
            = Some ''2024-01-01T12:00:00Z''"
    and h5: "map_of [(''commit_timestamp'', ''2024-01-01T12:00:00Z''),
            (''deploy_timestamp'', ''2024-01-01T11:00:00Z'')] ''deploy_timestamp''
            = Some ''2024-01-01T11:00:00Z''"
    by simp_all
  have h4: "parse ''2024-01-01T12:00:00Z'' = Inr (stamped 1 12)"
    and h6: "parse ''2024-01-01T11:00:00Z'' = Inr (stamped 1 11)"
    and h7: "instant (stamped 1 11) < instant (stamped 1 12)"
    by code_simp+
  from negative_lead_time_kept[OF t h1 h2 h3 h4 h5 h6 h7]
  have "\<exists>r\<in>set (lt_raw t). \<exists>row\<in>set (daily_average t).
           timestamp skewed_event = Some (lt_timestamp r) \<and>
           deploy_timestamp r = stamped 1 11 \<and> commit_timestamp r = stamped 1 12 \<and>
           lead_time_hours r < 0 \<and>
           ld_date row = lt_date r \<and> ld_service row = lt_service r \<and>
           lead_time_hours r \<in> set (bucket_hours (lt_raw t) (lt_date r) (lt_service r)) \<and>
           min_lead_time_hours row = min_of (bucket_hours (lt_raw t) (lt_date r) (lt_service r)) \<and>
           min_lead_time_hours row \<le> lead_time_hours r"
    by blast
  with t v show ?thesis by (intro exI[of _ t] conjI)
qed

end
